theory Spec2Isabelle
  imports Complex_Main
begin

section \<open>Python values and library functions used by the exporter\<close>

text \<open>
  The exporter (\<^verbatim>\<open>nidmfsl/fsl_exporter/fsl_exporter.py\<close>) is Python. Exceptions are
  values of type \<open>error\<close>; a computation that may raise returns \<open>error + 'a\<close> with
  \<open>Inl\<close> for the exception. Text is \<open>string\<close> (8-bit characters, ASCII text).
  Numbers read from tables are finite floats; only comparisons, \<open>max\<close>/\<open>min\<close> and
  truncation are applied to them, all of which are exact, so they are modelled by the
  reals they denote.
\<close>

datatype error =
    AttributeError | IndexError | KeyError | ValueError | AssertionError
  | UnboundLocalError | IOError

text \<open>Sequencing of computations that may raise: the first exception aborts.\<close>

definition bind_err :: "error + 'a \<Rightarrow> ('a \<Rightarrow> error + 'b) \<Rightarrow> error + 'b" where
  "bind_err r f = (case r of Inl e \<Rightarrow> Inl e | Inr v \<Rightarrow> f v)"

text \<open>
  Python compares values of different types as unequal: \<^verbatim>\<open>'1' == 1\<close> is \<^verbatim>\<open>False\<close>.
  \<open>pyval\<close> holds the two kinds of value that meet in such a comparison.
\<close>

datatype pyval = PyStr string | PyInt int

definition py_eq :: "pyval \<Rightarrow> pyval \<Rightarrow> bool" where
  "py_eq a b = (a = b)"

definition digits :: string where
  "digits = ''0123456789''"

definition is_digit :: "char \<Rightarrow> bool" where
  "is_digit c = (c \<in> set digits)"

definition digit_val :: "char \<Rightarrow> int" where
  "digit_val c = int (length (takeWhile (\<lambda>d. d \<noteq> c) digits))"

definition digits_val :: "string \<Rightarrow> int" where
  "digits_val s = foldl (\<lambda>n c. 10 * n + digit_val c) 0 s"

text \<open>
  \<^verbatim>\<open>int(s)\<close> on a string: an optional sign and one or more decimal digits, anything else
  raises ValueError. (The strings this program converts are regular-expression captures
  of digits and the pieces of a comma-split list of such captures; Python's tolerance of
  surrounding blanks and of underscores is not needed for them.)
\<close>

definition py_int :: "string \<Rightarrow> error + int" where
  "py_int s =
     (let (neg, body) =
            (case s of
               c # r \<Rightarrow> if c = CHR ''-'' then (True, r)
                        else if c = CHR ''+'' then (False, r) else (False, s)
             | [] \<Rightarrow> (False, s))
      in if body \<noteq> [] \<and> list_all is_digit body
         then Inr (if neg then - digits_val body else digits_val body)
         else Inl ValueError)"

text \<open>ASCII white space, and \<^verbatim>\<open>s.strip()\<close>.\<close>

definition is_space :: "char \<Rightarrow> bool" where
  "is_space c = (c \<in> set [CHR '' '', CHR 0x09, CHR 0x0A, CHR 0x0B, CHR 0x0C, CHR 0x0D])"

definition py_strip :: "string \<Rightarrow> string" where
  "py_strip s = rev (dropWhile is_space (rev (dropWhile is_space s)))"

text \<open>
  \<^verbatim>\<open>float(s)\<close> on the texts this program converts (captures of \<^verbatim>\<open>\d+\.?\d+\<close> and of
  \<^verbatim>\<open>\d+\<close>, and the content of the degrees-of-freedom file): surrounding white space is
  ignored, then digits with an optional decimal point and more digits. The value is the
  decimal number written; anything else raises ValueError here (signs, exponents, \<^verbatim>\<open>inf\<close>
  and \<^verbatim>\<open>nan\<close> are not modelled).
\<close>

definition py_float :: "string \<Rightarrow> error + real" where
  "py_float s =
     (let t = py_strip s; ip = takeWhile is_digit t; r = dropWhile is_digit t
      in if ip = [] then Inl ValueError
         else if r = [] then Inr (of_int (digits_val ip))
         else if hd r = CHR ''.'' \<and> list_all is_digit (tl r)
              then Inr (of_int (digits_val ip) + of_int (digits_val (tl r)) / 10 ^ length (tl r))
              else Inl ValueError)"

text \<open>\<^verbatim>\<open>s.upper()\<close> and \<^verbatim>\<open>s.lower()\<close> on ASCII text.\<close>

definition lower_letters :: string where
  "lower_letters = ''abcdefghijklmnopqrstuvwxyz''"

definition upper_letters :: string where
  "upper_letters = ''ABCDEFGHIJKLMNOPQRSTUVWXYZ''"

definition py_upper :: "string \<Rightarrow> string" where
  "py_upper s =
     map (\<lambda>c. case map_of (zip lower_letters upper_letters) c of None \<Rightarrow> c | Some d \<Rightarrow> d) s"

definition py_lower :: "string \<Rightarrow> string" where
  "py_lower s =
     map (\<lambda>c. case map_of (zip upper_letters lower_letters) c of None \<Rightarrow> c | Some d \<Rightarrow> d) s"

text \<open>\<^verbatim>\<open>int(x)\<close> on a finite float truncates towards zero.\<close>

definition py_trunc :: "real \<Rightarrow> int" where
  "py_trunc x = (if x < 0 then - \<lfloor>- x\<rfloor> else \<lfloor>x\<rfloor>)"

text \<open>\<^verbatim>\<open>s.startswith(p)\<close>.\<close>

definition startswith :: "string \<Rightarrow> string \<Rightarrow> bool" where
  "startswith s p = (take (length p) s = p)"

text \<open>\<^verbatim>\<open>s.replace(old, new)\<close>: every non-overlapping occurrence, from the left.\<close>

function py_replace :: "string \<Rightarrow> string \<Rightarrow> string \<Rightarrow> string" where
  "py_replace old new s =
     (if old = [] then new @ concat (map (\<lambda>c. c # new) s)
      else if s = [] then []
      else if startswith s old then new @ py_replace old new (drop (length old) s)
      else hd s # py_replace old new (tl s))"
  by pat_completeness auto
termination
  by (relation "measure (\<lambda>(old, new, s). length s)") auto

declare py_replace.simps [simp del]

text \<open>\<^verbatim>\<open>s.split(sep)\<close> for a one-character separator: always at least one piece.\<close>

fun py_split :: "char \<Rightarrow> string \<Rightarrow> string list" where
  "py_split sep [] = [[]]"
| "py_split sep (c # s) =
     (if c = sep then [] # py_split sep s
      else (case py_split sep s of p # ps \<Rightarrow> (c # p) # ps | [] \<Rightarrow> [[c]]))"

text \<open>
  \<^verbatim>\<open>str(xs)\<close> for a list of strings none of which needs escaping (here: captures of
  \<^verbatim>\<open>-?\d+\<close>): the elements in single quotes, separated by comma and blank, in brackets.
\<close>

fun join_comma :: "string list \<Rightarrow> string" where
  "join_comma [] = []"
| "join_comma [x] = x"
| "join_comma (x # y # r) = x @ '', '' @ join_comma (y # r)"

definition py_str_list :: "string list \<Rightarrow> string" where
  "py_str_list xs = ''['' @ join_comma (map (\<lambda>x. [CHR 0x27] @ x @ [CHR 0x27]) xs) @ '']''"

text \<open>\<^verbatim>\<open>"{0:0>3}".format(s)\<close>: right-aligned in three columns, filled with zeros.\<close>

definition format_03 :: "string \<Rightarrow> string" where
  "format_03 s = replicate (3 - length s) CHR ''0'' @ s"

text \<open>\<^verbatim>\<open>os.path.join(a, b)\<close> on a POSIX system.\<close>

definition path_join :: "string \<Rightarrow> string \<Rightarrow> string" where
  "path_join a b =
     (if startswith b ''/'' then b
      else if a = [] \<or> last a = CHR ''/'' then a @ b
      else a @ ''/'' @ b)"

text \<open>
  A Python \<^verbatim>\<open>dict\<close> as an association list in insertion order (the order in which
  \<^verbatim>\<open>values()\<close> iterates), with at most one entry per key.
\<close>

type_synonym ('k, 'v) dict = "('k \<times> 'v) list"

definition dict_get :: "('k, 'v) dict \<Rightarrow> 'k \<Rightarrow> error + 'v" where
  "dict_get d k = (case map_of d k of None \<Rightarrow> Inl KeyError | Some v \<Rightarrow> Inr v)"

text \<open>\<^verbatim>\<open>d[k] = v\<close>: an existing key keeps its place.\<close>

fun dict_set :: "('k, 'v) dict \<Rightarrow> 'k \<Rightarrow> 'v \<Rightarrow> ('k, 'v) dict" where
  "dict_set [] k v = [(k, v)]"
| "dict_set ((k', v') # d) k v =
     (if k' = k then (k, v) # d else (k', v') # dict_set d k v)"

text \<open>
  \<^verbatim>\<open>d.setdefault(k, list()).append(v)\<close>, which is also what
  \<^verbatim>\<open>if k in d: d[k].append(v) else: d[k] = list([v])\<close> does.
\<close>

fun dict_append :: "('k, 'v list) dict \<Rightarrow> 'k \<Rightarrow> 'v \<Rightarrow> ('k, 'v list) dict" where
  "dict_append [] k v = [(k, [v])]"
| "dict_append ((k', vs) # d) k v =
     (if k' = k then (k', vs @ [v]) # d else (k', vs) # dict_append d k v)"

text \<open>\<^verbatim>\<open>row[i]\<close> on a table row: IndexError past the end.\<close>

definition row_get :: "'a list \<Rightarrow> nat \<Rightarrow> error + 'a" where
  "row_get row i = (if i < length row then Inr (row ! i) else Inl IndexError)"

section \<open>Regular expressions\<close>

text \<open>
  The patterns of the exporter are sequences of single-character classes, each taken once
  or under a greedy \<^verbatim>\<open>?\<close>, \<^verbatim>\<open>*\<close> or \<^verbatim>\<open>+\<close>, with named groups around parts of the sequence.
  \<open>Open n\<close> and \<open>Close n\<close> mark where group \<open>n\<close> starts and ends. The matcher
  backtracks as Python's \<^verbatim>\<open>re\<close> does: a greedy repetition first tries to take one more
  character and gives it back only if the rest of the pattern fails.
\<close>

datatype cls = Lit char | Dot | Digit | Word | Space

datatype quant = Once | Opt | Star | Plus

datatype item = Rep "cls list" quant | Open string | Close string

fun cls_accepts :: "cls \<Rightarrow> char \<Rightarrow> bool" where
  "cls_accepts (Lit a) c = (c = a)"
| "cls_accepts Dot c = (c \<noteq> CHR 0x0A)"
| "cls_accepts Digit c = is_digit c"
| "cls_accepts Word c =
     (c \<in> set ''abcdefghijklmnopqrstuvwxyzABCDEFGHIJKLMNOPQRSTUVWXYZ0123456789_'')"
| "cls_accepts Space c = is_space c"

definition accepts :: "cls list \<Rightarrow> char \<Rightarrow> bool" where
  "accepts cs c = list_ex (\<lambda>k. cls_accepts k c) cs"

text \<open>Every open group records the character just consumed.\<close>

definition push :: "char \<Rightarrow> (string \<times> string) list \<Rightarrow> (string \<times> string) list" where
  "push c opens = map (\<lambda>(n, acc). (n, acc @ [c])) opens"

text \<open>
  \<open>rmatch items s opens caps\<close> matches \<open>items\<close> at the start of \<open>s\<close>; the result is
  the captured groups and the text left after the match.
\<close>

fun rmatch ::
  "item list \<Rightarrow> string \<Rightarrow> (string \<times> string) list \<Rightarrow> (string \<times> string) list
     \<Rightarrow> ((string \<times> string) list \<times> string) option" where
  "rmatch [] s opens caps = Some (caps, s)"
| "rmatch (Open n # r) s opens caps = rmatch r s ((n, []) # opens) caps"
| "rmatch (Close n # r) s opens caps =
     rmatch r s (filter (\<lambda>(m, acc). m \<noteq> n) opens)
       (caps @ filter (\<lambda>(m, acc). m = n) opens)"
| "rmatch (Rep cs Once # r) [] opens caps = None"
| "rmatch (Rep cs Once # r) (c # s) opens caps =
     (if accepts cs c then rmatch r s (push c opens) caps else None)"
| "rmatch (Rep cs Opt # r) [] opens caps = rmatch r [] opens caps"
| "rmatch (Rep cs Opt # r) (c # s) opens caps =
     (if accepts cs c
      then (case rmatch r s (push c opens) caps of
              Some m \<Rightarrow> Some m
            | None \<Rightarrow> rmatch r (c # s) opens caps)
      else rmatch r (c # s) opens caps)"
| "rmatch (Rep cs Star # r) [] opens caps = rmatch r [] opens caps"
| "rmatch (Rep cs Star # r) (c # s) opens caps =
     (if accepts cs c
      then (case rmatch (Rep cs Star # r) s (push c opens) caps of
              Some m \<Rightarrow> Some m
            | None \<Rightarrow> rmatch r (c # s) opens caps)
      else rmatch r (c # s) opens caps)"
| "rmatch (Rep cs Plus # r) [] opens caps = None"
| "rmatch (Rep cs Plus # r) (c # s) opens caps =
     (if accepts cs c then rmatch (Rep cs Star # r) s (push c opens) caps else None)"

text \<open>A match object: the whole matched text, the named groups, and the text after it.\<close>

record rematch =
  m_whole :: string
  m_groups :: "(string \<times> string) list"
  m_rest :: string

definition re_match :: "item list \<Rightarrow> string \<Rightarrow> rematch option" where
  "re_match items s =
     (case rmatch items s [] [] of
        None \<Rightarrow> None
      | Some (caps, rest) \<Rightarrow>
          Some \<lparr>m_whole = take (length s - length rest) s, m_groups = caps, m_rest = rest\<rparr>)"

text \<open>\<^verbatim>\<open>pattern.search(text)\<close>: the match at the leftmost position that has one.\<close>

fun re_search :: "item list \<Rightarrow> string \<Rightarrow> rematch option" where
  "re_search items [] = re_match items []"
| "re_search items (c # s) =
     (case re_match items (c # s) of
        Some m \<Rightarrow> Some m
      | None \<Rightarrow> re_search items s)"

text \<open>\<^verbatim>\<open>m.group(name)\<close>: IndexError when the pattern has no such group.\<close>

definition m_group :: "rematch \<Rightarrow> string \<Rightarrow> error + string" where
  "m_group m name = (case map_of (m_groups m) name of None \<Rightarrow> Inl IndexError | Some g \<Rightarrow> Inr g)"

text \<open>
  \<^verbatim>\<open>pattern.finditer(text)\<close>: the matches from left to right, each search starting where
  the previous match ended (one character further after an empty match).
\<close>

lemma rmatch_rest_length:
  "rmatch items s opens caps = Some (caps', rest) \<Longrightarrow> length rest \<le> length s"
  by (induction items s opens caps rule: rmatch.induct)
     (auto split: if_splits option.splits intro: le_SucI)

lemma re_search_length:
  "re_search items s = Some m \<Longrightarrow> length (m_whole m) + length (m_rest m) \<le> length s"
proof (induction items s rule: re_search.induct)
  case (1 items)
  then show ?case
    by (auto simp: re_match_def split: option.splits dest: rmatch_rest_length)
next
  case (2 items c s)
  then show ?case
    by (auto simp: re_match_def split: option.splits dest!: rmatch_rest_length)
qed

function re_finditer :: "item list \<Rightarrow> string \<Rightarrow> rematch list" where
  "re_finditer items s =
     (case re_search items s of
        None \<Rightarrow> []
      | Some m \<Rightarrow>
          m # (if m_whole m = []
               then (case m_rest m of [] \<Rightarrow> [] | c # t \<Rightarrow> re_finditer items t)
               else re_finditer items (m_rest m)))"
  by pat_completeness auto
termination
proof (relation "measure (\<lambda>(items, s). length s)")
  show "wf (measure (\<lambda>(items, s). length s))" by simp
next
  fix items s m c t
  assume "re_search items s = Some m" "m_rest m = c # t"
  then show "((items, t), (items, s)) \<in> measure (\<lambda>(items, s). length s)"
    using re_search_length[of items s m] by simp
next
  fix items s m
  assume "re_search items s = Some m" "m_whole m \<noteq> []"
  then show "((items, m_rest m), (items, s)) \<in> measure (\<lambda>(items, s). length s)"
    using re_search_length[of items s m] by (cases "m_whole m") simp_all
qed

declare re_finditer.simps [simp del]

text \<open>
  \<^verbatim>\<open>re.findall(pattern, text)\<close> for a pattern with one group: that group's text in every
  match (the whole match for a pattern without groups).
\<close>

definition re_findall :: "item list \<Rightarrow> string \<Rightarrow> string list" where
  "re_findall items s =
     map (\<lambda>m. case m_groups m of [] \<Rightarrow> m_whole m | (n, g) # gs \<Rightarrow> g) (re_finditer items s)"

text \<open>Building blocks for writing the exporter's patterns.\<close>

definition lit :: "string \<Rightarrow> item list" where
  "lit s = map (\<lambda>c. Rep [Lit c] Once) s"

definition named :: "string \<Rightarrow> item list \<Rightarrow> item list" where
  "named n its = Open n # its @ [Close n]"

definition dot_star :: item where
  "dot_star = Rep [Dot] Star"

definition digit_plus :: item where
  "digit_plus = Rep [Digit] Plus"

section \<open>The Pattern Extractor: \<^verbatim>\<open>_search_in_fsf\<close>\<close>

text \<open>
  \<^verbatim>\<open>
  def _search_in_fsf(self, regexp, return_not_found=False):
      info_search = re.compile(regexp)
      info_found = info_search.search(self.design_txt)
      if not info_found and return_not_found:
          info = None
      else:
          info = info_found.group('info')
      return info
  \<close>
  \<^verbatim>\<open>info_found.group\<close> on \<^verbatim>\<open>None\<close> raises AttributeError.
\<close>

definition search_in_fsf :: "string \<Rightarrow> item list \<Rightarrow> bool \<Rightarrow> error + string option" where
  "search_in_fsf design_txt regexp return_not_found =
     (let info_found = re_search regexp design_txt
      in if info_found = None \<and> return_not_found then Inr None
         else (case info_found of
                 None \<Rightarrow> Inl AttributeError
               | Some m \<Rightarrow> bind_err (m_group m ''info'') (\<lambda>info. Inr (Some info))))"

text \<open>The lookup without tolerance, as every caller but one uses it: a string or an exception.\<close>

definition search_fsf :: "string \<Rightarrow> item list \<Rightarrow> error + string" where
  "search_fsf design_txt regexp =
     bind_err (search_in_fsf design_txt regexp False)
       (\<lambda>info. case info of None \<Rightarrow> Inl AttributeError | Some s \<Rightarrow> Inr s)"

text \<open>\<^verbatim>\<open>type_re = r'.*set fmri\(thresh\) (?P<info>\d+).*'\<close>\<close>

definition type_re :: "item list" where
  "type_re = dot_star # lit ''set fmri(thresh) '' @ named ''info'' [digit_plus] @ [dot_star]"

section \<open>The Cluster/Peak Merger: \<^verbatim>\<open>_get_clusters_peaks\<close>\<close>

text \<open>
  \<^verbatim>\<open>Peak\<close> and \<^verbatim>\<open>Cluster\<close> are classes of the nidmresults library; the records hold the
  keyword arguments the exporter passes, \<open>None\<close> for one it leaves out or passes as
  \<^verbatim>\<open>None\<close>.
\<close>

record peak =
  p_index :: int
  p_x :: "int option"
  p_y :: "int option"
  p_z :: "int option"
  p_x_std :: "real option"
  p_y_std :: "real option"
  p_z_std :: "real option"
  p_equiv_z :: real
  p_cluster_index :: int
  p_stat_num :: string

record cluster =
  c_cluster_num :: int
  c_size :: int
  c_pFWER :: real
  c_peaks :: "peak list"
  c_x :: "real option"
  c_y :: "real option"
  c_z :: "real option"
  c_x_std :: "real option"
  c_y_std :: "real option"
  c_z_std :: "real option"

type_synonym table = "real list list"

text \<open>
  What \<^verbatim>\<open>np.loadtxt(f)\<close> returns when \<^verbatim>\<open>ndmin\<close> is not given: the array is squeezed, so
  a file with a single value gives a zero-dimensional array, a file with a single row or a
  single column a one-dimensional one, and only a file with several rows and columns a
  two-dimensional one (its rows).
\<close>

datatype ndarray = Arr0 real | Arr1 "real list" | Arr2 "real list list"

text \<open>
  The \<^verbatim>\<open>SearchSpace\<close> object that \<^verbatim>\<open>_get_search_space\<close> returns, named by the mask file it
  is built on. Its volumes and smoothness figures come from floating-point arithmetic and
  an external program and are not modelled.
\<close>

datatype search_space = SearchSpace string

text \<open>
  The result directory and the rest of the file system, as the exporter sees them.
  \<^item> \<open>w_tables f\<close> is \<open>None\<close> when \<^verbatim>\<open>os.path.isfile(f)\<close> is false, and otherwise what
    \<^verbatim>\<open>np.loadtxt(f, skiprows=1, ndmin=2)\<close> gives: an exception or the rows of a
    two-dimensional array.
  \<^item> \<open>w_loadtxt f\<close> is what \<^verbatim>\<open>np.loadtxt(f)\<close> gives.
  \<^item> \<open>w_glob d\<close> is \<^verbatim>\<open>glob.glob(os.path.join(d, 'thresh_z*.nii.gz'))\<close>.
  \<^item> \<open>w_read f\<close> is \<^verbatim>\<open>open(f, 'r').read()\<close>.
  \<^item> \<open>w_search_space d\<close> is \<^verbatim>\<open>self._get_search_space(d)\<close>.
\<close>

record world =
  w_tables :: "string \<Rightarrow> (error + table) option"
  w_loadtxt :: "string \<Rightarrow> error + ndarray"
  w_glob :: "string \<Rightarrow> string list"
  w_read :: "string \<Rightarrow> error + string"
  w_search_space :: "string \<Rightarrow> error + search_space"

text \<open>An empty file system.\<close>

definition world_none :: world where
  "world_none =
     \<lparr>w_tables = (\<lambda>f. None), w_loadtxt = (\<lambda>f. Inl IOError), w_glob = (\<lambda>d. []),
      w_read = (\<lambda>f. Inl IOError), w_search_space = (\<lambda>d. Inl IOError)\<rparr>"

definition load_table :: "world \<Rightarrow> string \<Rightarrow> error + table option" where
  "load_table w f =
     (case w_tables w f of
        None \<Rightarrow> Inr None
      | Some r \<Rightarrow> bind_err r (\<lambda>t. Inr (Some t)))"

text \<open>\<^verbatim>\<open>np.column_stack((a, b))\<close> of two-dimensional arrays: the row counts must agree.\<close>

definition column_stack :: "table \<Rightarrow> table \<Rightarrow> error + table" where
  "column_stack a b =
     (if length a = length b then Inr (map (\<lambda>(r, r'). r @ r') (zip a b)) else Inl ValueError)"

text \<open>
  The three ways a peak row becomes a \<^verbatim>\<open>Peak\<close>: from the joined voxel and standardised
  tables, from the voxel table alone, from the standardised table alone.
\<close>

definition mk_peak_both :: "string \<Rightarrow> real list \<Rightarrow> int \<Rightarrow> int \<Rightarrow> error + peak" where
  "mk_peak_both stat_num peak_row peakIndex cluster_id =
     bind_err (row_get peak_row 2) (\<lambda>x.
     bind_err (row_get peak_row 3) (\<lambda>y.
     bind_err (row_get peak_row 4) (\<lambda>z.
     bind_err (row_get peak_row 7) (\<lambda>x_std.
     bind_err (row_get peak_row 8) (\<lambda>y_std.
     bind_err (row_get peak_row 9) (\<lambda>z_std.
     bind_err (row_get peak_row 1) (\<lambda>equiv_z.
       Inr \<lparr>p_index = peakIndex, p_x = Some (py_trunc x), p_y = Some (py_trunc y),
            p_z = Some (py_trunc z), p_x_std = Some x_std, p_y_std = Some y_std,
            p_z_std = Some z_std, p_equiv_z = equiv_z, p_cluster_index = cluster_id,
            p_stat_num = stat_num\<rparr>)))))))"

definition mk_peak_vox :: "string \<Rightarrow> real list \<Rightarrow> int \<Rightarrow> int \<Rightarrow> error + peak" where
  "mk_peak_vox stat_num peak_row peakIndex cluster_id =
     bind_err (row_get peak_row 2) (\<lambda>x.
     bind_err (row_get peak_row 3) (\<lambda>y.
     bind_err (row_get peak_row 4) (\<lambda>z.
     bind_err (row_get peak_row 1) (\<lambda>equiv_z.
       Inr \<lparr>p_index = peakIndex, p_x = Some (py_trunc x), p_y = Some (py_trunc y),
            p_z = Some (py_trunc z), p_x_std = None, p_y_std = None,
            p_z_std = None, p_equiv_z = equiv_z, p_cluster_index = cluster_id,
            p_stat_num = stat_num\<rparr>))))"

definition mk_peak_std :: "string \<Rightarrow> real list \<Rightarrow> int \<Rightarrow> int \<Rightarrow> error + peak" where
  "mk_peak_std stat_num peak_row peakIndex cluster_id =
     bind_err (row_get peak_row 2) (\<lambda>x_std.
     bind_err (row_get peak_row 3) (\<lambda>y_std.
     bind_err (row_get peak_row 4) (\<lambda>z_std.
     bind_err (row_get peak_row 1) (\<lambda>equiv_z.
       Inr \<lparr>p_index = peakIndex, p_x = None, p_y = None,
            p_z = None, p_x_std = Some x_std, p_y_std = Some y_std,
            p_z_std = Some z_std, p_equiv_z = equiv_z, p_cluster_index = cluster_id,
            p_stat_num = stat_num\<rparr>))))"

text \<open>
  The loop over the peak rows, the same in the three branches but for the \<^verbatim>\<open>Peak\<close> built:
  \<^verbatim>\<open>
  for peak_row in rows:
      cluster_id = int(peak_row[0])
      if not cluster_id == prev_cluster:
          peakIndex = 1
      peak = Peak(peak_index=int(peakIndex), ...)
      if cluster_id in peaks:
          peaks[cluster_id].append(peak)
      else:
          peaks[cluster_id] = list([peak])
      prev_cluster = cluster_id
      peakIndex = peakIndex + 1
  \<close>
  The state is \<open>(peaks, prev_cluster, peakIndex)\<close>; \<open>peakIndex\<close> is \<open>None\<close> while the local
  variable has not been assigned, and reading it then raises UnboundLocalError.
\<close>

type_synonym peak_state = "(int, peak list) dict \<times> int \<times> int option"

fun peaks_loop ::
  "(real list \<Rightarrow> int \<Rightarrow> int \<Rightarrow> error + peak) \<Rightarrow> table \<Rightarrow> peak_state \<Rightarrow> error + peak_state" where
  "peaks_loop mk [] st = Inr st"
| "peaks_loop mk (peak_row # rows) (peaks, prev_cluster, peakIndex) =
     bind_err (row_get peak_row 0) (\<lambda>c0.
       let cluster_id = py_trunc c0;
           peakIndex1 = (if cluster_id \<noteq> prev_cluster then Some 1 else peakIndex)
       in case peakIndex1 of
            None \<Rightarrow> Inl UnboundLocalError
          | Some i \<Rightarrow>
              bind_err (mk peak_row i cluster_id) (\<lambda>peak.
                peaks_loop mk rows (dict_append peaks cluster_id peak, cluster_id, Some (i + 1))))"

text \<open>
  \<^verbatim>\<open>peaks = dict(); prev_cluster = -1\<close> and the choice of branch by the peak files present.
  \<^verbatim>\<open>peakIndex\<close> is a local of the whole function and keeps its value from one analysis
  directory to the next.
\<close>

definition peaks_of_dir ::
  "string \<Rightarrow> table option \<Rightarrow> table option \<Rightarrow> int option \<Rightarrow> error + peak_state" where
  "peaks_of_dir stat_num peak_table peak_std_table peakIndex =
     (case peak_table of
        Some pt \<Rightarrow>
          (case peak_std_table of
             Some pst \<Rightarrow>
               bind_err (column_stack pt pst) (\<lambda>peaks_join_table.
                 peaks_loop (mk_peak_both stat_num) peaks_join_table ([], - 1, peakIndex))
           | None \<Rightarrow> peaks_loop (mk_peak_vox stat_num) pt ([], - 1, peakIndex))
      | None \<Rightarrow>
          (case peak_std_table of
             Some pst \<Rightarrow> peaks_loop (mk_peak_std stat_num) pst ([], - 1, peakIndex)
           | None \<Rightarrow> Inr ([], - 1, peakIndex)))"

text \<open>The three ways a cluster row becomes a \<^verbatim>\<open>Cluster\<close>; \<^verbatim>\<open>peaks[cluster_id]\<close> raises KeyError.\<close>

definition mk_cluster_both :: "(int, peak list) dict \<Rightarrow> real list \<Rightarrow> error + cluster" where
  "mk_cluster_both peaks cluster_row =
     bind_err (row_get cluster_row 0) (\<lambda>c0.
     bind_err (row_get cluster_row 1) (\<lambda>c1.
     bind_err (row_get cluster_row 2) (\<lambda>pFWER.
     bind_err (row_get cluster_row 8) (\<lambda>x.
     bind_err (row_get cluster_row 9) (\<lambda>y.
     bind_err (row_get cluster_row 10) (\<lambda>z.
     bind_err (row_get cluster_row 24) (\<lambda>x_std.
     bind_err (row_get cluster_row 25) (\<lambda>y_std.
     bind_err (row_get cluster_row 26) (\<lambda>z_std.
     bind_err (dict_get peaks (py_trunc c0)) (\<lambda>ps.
       Inr \<lparr>c_cluster_num = py_trunc c0, c_size = py_trunc c1, c_pFWER = pFWER,
            c_peaks = ps, c_x = Some x, c_y = Some y, c_z = Some z,
            c_x_std = Some x_std, c_y_std = Some y_std, c_z_std = Some z_std\<rparr>))))))))))"

definition mk_cluster_vox :: "(int, peak list) dict \<Rightarrow> real list \<Rightarrow> error + cluster" where
  "mk_cluster_vox peaks cluster_row =
     bind_err (row_get cluster_row 0) (\<lambda>c0.
     bind_err (row_get cluster_row 1) (\<lambda>c1.
     bind_err (row_get cluster_row 2) (\<lambda>pFWER.
     bind_err (row_get cluster_row 8) (\<lambda>x.
     bind_err (row_get cluster_row 9) (\<lambda>y.
     bind_err (row_get cluster_row 10) (\<lambda>z.
     bind_err (dict_get peaks (py_trunc c0)) (\<lambda>ps.
       Inr \<lparr>c_cluster_num = py_trunc c0, c_size = py_trunc c1, c_pFWER = pFWER,
            c_peaks = ps, c_x = Some x, c_y = Some y, c_z = Some z,
            c_x_std = None, c_y_std = None, c_z_std = None\<rparr>)))))))"

definition mk_cluster_std :: "(int, peak list) dict \<Rightarrow> real list \<Rightarrow> error + cluster" where
  "mk_cluster_std peaks cluster_row =
     bind_err (row_get cluster_row 0) (\<lambda>c0.
     bind_err (row_get cluster_row 1) (\<lambda>c1.
     bind_err (row_get cluster_row 2) (\<lambda>pFWER.
     bind_err (row_get cluster_row 8) (\<lambda>x_std.
     bind_err (row_get cluster_row 9) (\<lambda>y_std.
     bind_err (row_get cluster_row 10) (\<lambda>z_std.
     bind_err (dict_get peaks (py_trunc c0)) (\<lambda>ps.
       Inr \<lparr>c_cluster_num = py_trunc c0, c_size = py_trunc c1, c_pFWER = pFWER,
            c_peaks = ps, c_x = None, c_y = None, c_z = None,
            c_x_std = Some x_std, c_y_std = Some y_std, c_z_std = Some z_std\<rparr>)))))))"

text \<open>\<^verbatim>\<open>for cluster_row in rows: ... clusters.append(Cluster(...))\<close>\<close>

fun clusters_loop ::
  "(real list \<Rightarrow> error + cluster) \<Rightarrow> table \<Rightarrow> cluster list \<Rightarrow> error + cluster list" where
  "clusters_loop mk [] clusters = Inr clusters"
| "clusters_loop mk (cluster_row # rows) clusters =
     bind_err (mk cluster_row) (\<lambda>c. clusters_loop mk rows (clusters @ [c]))"

definition clusters_of_dir ::
  "(int, peak list) dict \<Rightarrow> table option \<Rightarrow> table option \<Rightarrow> cluster list
     \<Rightarrow> error + cluster list" where
  "clusters_of_dir peaks cluster_table cluster_std_table clusters =
     (case cluster_table of
        Some ct \<Rightarrow>
          (case cluster_std_table of
             Some cst \<Rightarrow>
               bind_err (column_stack ct cst) (\<lambda>clusters_join_table.
                 clusters_loop (mk_cluster_both peaks) clusters_join_table clusters)
           | None \<Rightarrow> clusters_loop (mk_cluster_vox peaks) ct clusters)
      | None \<Rightarrow>
          (case cluster_std_table of
             Some cst \<Rightarrow> clusters_loop (mk_cluster_std peaks) cst clusters
           | None \<Rightarrow> Inr clusters))"

text \<open>
  The body of \<^verbatim>\<open>for analysis_dir in self.analysis_dirs\<close>: the four tables are looked for
  and loaded in the order cluster, standardised cluster, peak, standardised peak; then the
  peaks are grouped and the clusters built. The state carried from one directory to the
  next is \<open>(clusters, peakIndex)\<close>.
\<close>

definition merge_dir ::
  "world \<Rightarrow> string \<Rightarrow> string \<Rightarrow> cluster list \<times> int option
     \<Rightarrow> error + (cluster list \<times> int option)" where
  "merge_dir w stat_num analysis_dir st =
     bind_err (load_table w (path_join analysis_dir (''cluster_zstat'' @ stat_num @ ''.txt'')))
       (\<lambda>cluster_table.
     bind_err (load_table w
                 (path_join analysis_dir (''cluster_zstat'' @ stat_num @ ''_std.txt'')))
       (\<lambda>cluster_std_table.
     bind_err (load_table w (path_join analysis_dir (''lmax_zstat'' @ stat_num @ ''.txt'')))
       (\<lambda>peak_table.
     bind_err (load_table w (path_join analysis_dir (''lmax_zstat'' @ stat_num @ ''_std.txt'')))
       (\<lambda>peak_std_table.
     bind_err (peaks_of_dir stat_num peak_table peak_std_table (snd st))
       (\<lambda>(peaks, prev_cluster, peakIndex).
     bind_err (clusters_of_dir peaks cluster_table cluster_std_table (fst st))
       (\<lambda>clusters. Inr (clusters, peakIndex)))))))"

fun merge_dirs ::
  "world \<Rightarrow> string \<Rightarrow> string list \<Rightarrow> cluster list \<times> int option
     \<Rightarrow> error + (cluster list \<times> int option)" where
  "merge_dirs w stat_num [] st = Inr st"
| "merge_dirs w stat_num (analysis_dir # dirs) st =
     bind_err (merge_dir w stat_num analysis_dir st) (\<lambda>st'. merge_dirs w stat_num dirs st')"

text \<open>\<^verbatim>\<open>clusters = list()\<close>, the loop, \<^verbatim>\<open>return clusters\<close>.\<close>

definition get_clusters_peaks :: "world \<Rightarrow> string list \<Rightarrow> string \<Rightarrow> error + cluster list" where
  "get_clusters_peaks w analysis_dirs stat_num =
     bind_err (merge_dirs w stat_num analysis_dirs ([], None)) (\<lambda>st. Inr (fst st))"




definition peaks_under :: "(int, peak list) dict \<Rightarrow> int \<Rightarrow> peak list" where
  "peaks_under peaks k = (case map_of peaks k of None \<Rightarrow> [] | Some ps \<Rightarrow> ps)"

section \<open>The objects assembled by the exporter\<close>

text \<open>
  The classes are those of the nidmresults library; each record holds what the exporter
  passes to the constructor and later reads back. Identifiers (\<^verbatim>\<open>.id\<close>) are natural
  numbers. The arguments \<^verbatim>\<open>self.coord_space\<close> and \<^verbatim>\<open>self.export_dir\<close>, which the
  constructors only store, are left out.
\<close>

record param_estimate =
  pe_file :: string
  pe_id :: nat

record model_fitting =
  mf_activity_id :: nat
  mf_param_estimates :: "param_estimate list"

text \<open>
  A \<^verbatim>\<open>Contrast\<close> with its \<^verbatim>\<open>ContrastWeights\<close>, \<^verbatim>\<open>ContrastEstimation\<close> (whose identifier
  is \<open>con_estimation_id\<close>), \<^verbatim>\<open>ContrastMap\<close> (\<open>con_map_file\<close>), \<^verbatim>\<open>ContrastStdErrMap\<close> and
  the two \<^verbatim>\<open>StatisticMap\<close>s.
\<close>

record contrast =
  con_contrast_num :: string
  con_name :: string
  con_weights :: string
  con_stat_type :: string
  con_stat_num :: string
  con_estimation_id :: nat
  con_map_file :: string
  con_std_err_file :: string
  con_stat_file :: string
  con_z_stat_file :: string
  con_dof :: real

type_synonym contrast_dict = "(nat \<times> nat list, contrast list) dict"

record peak_criteria =
  pc_stat_num :: string
  pc_num_peak :: "int option"
  pc_peak_dist :: real

record cluster_criteria =
  cc_stat_num :: string
  cc_connectivity :: "int option"

record display_mask =
  dm_stat_num :: string
  dm_file :: string

record excursion_set =
  es_file :: string
  es_stat_num :: string
  es_visualisation :: string

text \<open>
  An \<^verbatim>\<open>Inference\<close> with its \<^verbatim>\<open>InferenceActivity\<close> (statistic number and contrast name),
  \<^verbatim>\<open>HeightThreshold\<close> (the three thresholds), \<^verbatim>\<open>ExtentThreshold\<close> (\<open>inf_extent_p_corr\<close>)
  and the other parts.
\<close>

record inference =
  inf_stat_num :: string
  inf_contrast_name :: string
  inf_stat_threshold :: "real option"
  inf_p_corr_threshold :: "real option"
  inf_p_uncorr_threshold :: "real option"
  inf_extent_p_corr :: "real option"
  inf_peak_criteria :: "peak_criteria option"
  inf_clus_criteria :: "cluster_criteria option"
  inf_display_mask :: "display_mask option"
  inf_exc_set :: excursion_set
  inf_clusters :: "cluster list option"
  inf_search_space :: search_space
  inf_software_id :: nat

text \<open>The attributes of \<^verbatim>\<open>self\<close> that the modelled methods read.\<close>

record exporter =
  self_feat_dir :: string
  self_design_txt :: string
  self_feat_post_log :: "string option"
  self_analysis_dirs :: "string list"
  self_contrast_names_by_num :: "(string, string) dict"
  self_model_fittings :: "(string, model_fitting) dict"
  self_contrasts :: contrast_dict
  self_software_id :: nat

section \<open>Excursion-set file names\<close>

text \<open>
  \<^verbatim>\<open>
  s = re.compile('zf?stat\d+')
  zstatnum = s.search(filename)
  zstatnum = zstatnum.group()
  if zstatnum.startswith("zstat"):
      stat_type = "T"
      con_num = zstatnum.replace('zstat', '')
  elif zstatnum.startswith("zfstat"):
      stat_type = "F"
      con_num = zstatnum.replace('zfstat', '')
  \<close>
  The result is \<open>(stat_type, con_num)\<close>. If neither branch is taken the variables stay
  unassigned and their first use raises UnboundLocalError.
\<close>

definition zstat_re :: "item list" where
  "zstat_re = lit ''z'' @ [Rep [Lit CHR ''f''] Opt] @ lit ''stat'' @ [digit_plus]"

definition exc_set_stat :: "string \<Rightarrow> error + string \<times> string" where
  "exc_set_stat filename =
     (case re_search zstat_re filename of
        None \<Rightarrow> Inl AttributeError
      | Some m \<Rightarrow>
          (let zstatnum = m_whole m
           in if startswith zstatnum ''zstat'' then Inr (''T'', py_replace ''zstat'' [] zstatnum)
              else if startswith zstatnum ''zfstat''
                   then Inr (''F'', py_replace ''zfstat'' [] zstatnum)
                   else Inl UnboundLocalError))"

text \<open>
  \<^verbatim>\<open>
  if len(exc_sets) > 1:
      stat_num = "_" + stat_type.upper() + "{0:0>3}".format(con_num)
  else:
      stat_num = ""
  \<close>
\<close>

definition stat_label :: "nat \<Rightarrow> string \<Rightarrow> string \<Rightarrow> string" where
  "stat_label n_exc_sets stat_type num =
     (if n_exc_sets > 1 then ''_'' @ py_upper stat_type @ format_03 num else [])"

section \<open>The Contrast Assembler: \<^verbatim>\<open>_find_contrasts\<close>\<close>

text \<open>
  \<^verbatim>\<open>name_re = r'.*set fmri\(conname_real\.' + con_num + '\) "(?P<info>[\w\s><]+)".*'\<close>
  and
  \<^verbatim>\<open>weights_re = r'.*set fmri\(con_real' + con_num + '\.\d+\) (?P<info>-?\d+)'\<close>;
  \<open>con_num\<close> is a string of digits, which stand for themselves in a pattern.
\<close>

definition name_re :: "string \<Rightarrow> item list" where
  "name_re con_num =
     dot_star # lit ''set fmri(conname_real.'' @ lit con_num @ lit '') '' @ lit [CHR 0x22]
       @ named ''info'' [Rep [Word, Space, Lit CHR ''>'', Lit CHR ''<''] Plus]
       @ lit [CHR 0x22] @ [dot_star]"

definition weights_re :: "string \<Rightarrow> item list" where
  "weights_re con_num =
     dot_star # lit ''set fmri(con_real'' @ lit con_num @ lit ''.'' @ [digit_plus] @ lit '') ''
       @ named ''info'' [Rep [Lit CHR ''-''] Opt, digit_plus]"

text \<open>\<^verbatim>\<open>s = re.compile('pe\d+')\<close>\<close>

definition pe_re :: "item list" where
  "pe_re = lit ''pe'' @ [digit_plus]"

text \<open>
  The search for the parameter estimates a contrast uses:
  \<^verbatim>\<open>
  pe_ids = list()
  pe_index = 1
  contrast_weights = contrast_weights.replace(' ', '')
  contrast_weights = contrast_weights.replace('[', '')
  contrast_weights = contrast_weights.replace(']', '')
  contrast_weights = contrast_weights.split(',')
  for beta_index in contrast_weights:
      if int(beta_index) == 1:
          for model_fitting in self.model_fittings.values():
              for pe in model_fitting.param_estimates:
                  s = re.compile('pe\d+')
                  pe_num = s.search(pe.file)
                  pe_num = pe_num.group()
                  pe_num = pe_num.replace('pe', '')
                  if pe_num == pe_index:
                      pe_ids.append(pe.id)
      pe_index += 1
  pe_ids = tuple(pe_ids)
  \<close>
  \<^verbatim>\<open>pe_num\<close> is a string and \<^verbatim>\<open>pe_index\<close> an integer.
\<close>

fun pe_scan :: "param_estimate list \<Rightarrow> int \<Rightarrow> nat list \<Rightarrow> error + nat list" where
  "pe_scan [] pe_index pe_ids = Inr pe_ids"
| "pe_scan (pe # pes) pe_index pe_ids =
     (case re_search pe_re (pe_file pe) of
        None \<Rightarrow> Inl AttributeError
      | Some m \<Rightarrow>
          (let pe_num = py_replace ''pe'' [] (m_whole m)
           in pe_scan pes pe_index
                (if py_eq (PyStr pe_num) (PyInt pe_index) then pe_ids @ [pe_id pe]
                 else pe_ids)))"

fun mf_scan :: "model_fitting list \<Rightarrow> int \<Rightarrow> nat list \<Rightarrow> error + nat list" where
  "mf_scan [] pe_index pe_ids = Inr pe_ids"
| "mf_scan (model_fitting # mfs) pe_index pe_ids =
     bind_err (pe_scan (mf_param_estimates model_fitting) pe_index pe_ids)
       (\<lambda>pe_ids'. mf_scan mfs pe_index pe_ids')"

fun weights_loop ::
  "string list \<Rightarrow> model_fitting list \<Rightarrow> int \<Rightarrow> nat list \<Rightarrow> error + nat list" where
  "weights_loop [] mfs pe_index pe_ids = Inr pe_ids"
| "weights_loop (beta_index # rest) mfs pe_index pe_ids =
     bind_err (py_int beta_index) (\<lambda>b.
     bind_err (if b = 1 then mf_scan mfs pe_index pe_ids else Inr pe_ids) (\<lambda>pe_ids'.
       weights_loop rest mfs (pe_index + 1) pe_ids'))"

definition find_pe_ids :: "string \<Rightarrow> (string, model_fitting) dict \<Rightarrow> error + nat list" where
  "find_pe_ids contrast_weights mfs =
     weights_loop
       (py_split CHR '',''
          (py_replace '']'' [] (py_replace ''['' [] (py_replace '' '' [] contrast_weights))))
       (map snd mfs) 1 []"

text \<open>
  \<^verbatim>\<open>contrast_weights = str(re.findall(weight_search, self.design_txt)).replace("'", '')\<close>
\<close>

definition contrast_weights_of :: "string \<Rightarrow> string \<Rightarrow> string" where
  "contrast_weights_of design con_num =
     py_replace [CHR 0x27] [] (py_str_list (re_findall (weights_re con_num) design))"

text \<open>
  The body of \<^verbatim>\<open>for filename in exc_sets\<close>. The state is the dictionary \<^verbatim>\<open>contrasts\<close>,
  the attribute \<^verbatim>\<open>self.contrast_names_by_num\<close>, and the next fresh identifier (the library
  gives every new \<^verbatim>\<open>ContrastEstimation\<close> an identifier of its own).
\<close>

type_synonym fc_state = "contrast_dict \<times> (string, string) dict \<times> nat"

definition contrast_of ::
  "exporter \<Rightarrow> nat \<Rightarrow> string \<Rightarrow> real \<Rightarrow> nat \<Rightarrow> string \<Rightarrow> fc_state \<Rightarrow> error + fc_state" where
  "contrast_of self mf_id stat_dir dof n_exc_sets filename st =
     (case st of (contrasts, names, next_id) \<Rightarrow>
     bind_err (exc_set_stat filename) (\<lambda>(stat_type, con_num).
     let stat_num = stat_label n_exc_sets stat_type con_num in
     bind_err (search_fsf (self_design_txt self) (name_re con_num)) (\<lambda>contrast_name.
     let contrast_weights = contrast_weights_of (self_design_txt self) con_num in
     bind_err (find_pe_ids contrast_weights (self_model_fittings self)) (\<lambda>pe_ids.
     let con =
           \<lparr>con_contrast_num = con_num, con_name = contrast_name, con_weights = contrast_weights,
            con_stat_type = stat_type, con_stat_num = stat_num,
            con_estimation_id = next_id,
            con_map_file = path_join stat_dir (''cope'' @ con_num @ ''.nii.gz''),
            con_std_err_file = path_join stat_dir (''varcope'' @ con_num @ ''.nii.gz''),
            con_stat_file =
              path_join stat_dir (py_lower stat_type @ ''stat'' @ con_num @ ''.nii.gz''),
            con_z_stat_file = path_join stat_dir (''zstat'' @ con_num @ ''.nii.gz''),
            con_dof = dof\<rparr>
     in Inr (dict_append contrasts (mf_id, pe_ids) con,
             dict_set names con_num contrast_name, next_id + 1)))))"

fun exc_sets_loop ::
  "exporter \<Rightarrow> nat \<Rightarrow> string \<Rightarrow> real \<Rightarrow> nat \<Rightarrow> string list \<Rightarrow> fc_state \<Rightarrow> error + fc_state" where
  "exc_sets_loop self mf_id stat_dir dof n [] st = Inr st"
| "exc_sets_loop self mf_id stat_dir dof n (filename # files) st =
     bind_err (contrast_of self mf_id stat_dir dof n filename st)
       (\<lambda>st'. exc_sets_loop self mf_id stat_dir dof n files st')"

text \<open>
  The inner \<^verbatim>\<open>for analysis_dir in self.analysis_dirs\<close>: every iteration globs the
  excursion sets of its directory and starts from \<^verbatim>\<open>contrasts = dict()\<close>. Before the local
  \<^verbatim>\<open>contrasts\<close> is first assigned it is \<open>None\<close>.
\<close>

type_synonym fc_outer = "contrast_dict option \<times> (string, string) dict \<times> nat"

fun inner_dirs_loop ::
  "world \<Rightarrow> exporter \<Rightarrow> nat \<Rightarrow> string \<Rightarrow> real \<Rightarrow> string list \<Rightarrow> fc_outer \<Rightarrow> error + fc_outer" where
  "inner_dirs_loop w self mf_id stat_dir dof [] st = Inr st"
| "inner_dirs_loop w self mf_id stat_dir dof (analysis_dir # dirs) (contrasts, names, next_id) =
     (let exc_sets = w_glob w analysis_dir
      in bind_err (exc_sets_loop self mf_id stat_dir dof (length exc_sets) exc_sets
                     ([], names, next_id))
           (\<lambda>(contrasts', names', next_id').
              inner_dirs_loop w self mf_id stat_dir dof dirs (Some contrasts', names', next_id')))"

text \<open>
  The outer \<^verbatim>\<open>for analysis_dir in self.analysis_dirs\<close>:
  \<^verbatim>\<open>
  mf_id = self.model_fittings[analysis_dir].activity.id
  stat_dir = os.path.join(analysis_dir, 'stats')
  dof_file = open(os.path.join(stat_dir, 'dof'), 'r')
  dof = float(dof_file.read())
  for analysis_dir in self.analysis_dirs:
      ...
  \<close>
\<close>

fun outer_dirs_loop :: "world \<Rightarrow> exporter \<Rightarrow> string list \<Rightarrow> fc_outer \<Rightarrow> error + fc_outer" where
  "outer_dirs_loop w self [] st = Inr st"
| "outer_dirs_loop w self (analysis_dir # dirs) st =
     bind_err (dict_get (self_model_fittings self) analysis_dir) (\<lambda>mf.
     let mf_id = mf_activity_id mf; stat_dir = path_join analysis_dir ''stats'' in
     bind_err (w_read w (path_join stat_dir ''dof'')) (\<lambda>dof_txt.
     bind_err (py_float dof_txt) (\<lambda>dof.
     bind_err (inner_dirs_loop w self mf_id stat_dir dof (self_analysis_dirs self) st) (\<lambda>st'.
       outer_dirs_loop w self dirs st'))))"

text \<open>
  \<^verbatim>\<open>return contrasts\<close>; the result also carries the updated \<^verbatim>\<open>self.contrast_names_by_num\<close>.
  \<open>next_id\<close> is the first identifier not yet in use.
\<close>

definition find_contrasts ::
  "world \<Rightarrow> exporter \<Rightarrow> nat \<Rightarrow> error + contrast_dict \<times> (string, string) dict" where
  "find_contrasts w self next_id =
     bind_err (outer_dirs_loop w self (self_analysis_dirs self)
                 (None, self_contrast_names_by_num self, next_id))
       (\<lambda>(contrasts, names, next_id').
          case contrasts of None \<Rightarrow> Inl UnboundLocalError | Some c \<Rightarrow> Inr (c, names))"

text \<open>Example inputs for the Contrast Assembler.\<close>

definition weights_txt :: string where
  "weights_txt =
     ''set fmri(con_real1.1) 1'' @ [CHR 0x0A] @ ''set fmri(con_real1.2) -1'' @ [CHR 0x0A]
     @ ''set fmri(con_real1.3) 2'' @ [CHR 0x0A] @ ''set fmri(con_real1.4) 0'' @ [CHR 0x0A]"

definition mfs4 :: "(string, model_fitting) dict" where
  "mfs4 =
     [(''a'', \<lparr>mf_activity_id = 7,
               mf_param_estimates =
                 [\<lparr>pe_file = ''a/stats/pe1.nii.gz'', pe_id = 11\<rparr>,
                  \<lparr>pe_file = ''a/stats/pe2.nii.gz'', pe_id = 12\<rparr>,
                  \<lparr>pe_file = ''a/stats/pe3.nii.gz'', pe_id = 13\<rparr>,
                  \<lparr>pe_file = ''a/stats/pe4.nii.gz'', pe_id = 14\<rparr>]\<rparr>)]"

definition two_txt :: string where
  "two_txt =
     ''set fmri(conname_real.1) '' @ [CHR 0x22] @ ''one'' @ [CHR 0x22, CHR 0x0A]
     @ ''set fmri(con_real1.1) 1'' @ [CHR 0x0A]
     @ ''set fmri(conname_real.2) '' @ [CHR 0x22] @ ''two'' @ [CHR 0x22, CHR 0x0A]
     @ ''set fmri(con_real2.1) 1'' @ [CHR 0x0A]"

definition self_two :: exporter where
  "self_two =
     \<lparr>self_feat_dir = ''g'', self_design_txt = two_txt, self_feat_post_log = None,
      self_analysis_dirs = [''a'', ''b''], self_contrast_names_by_num = [],
      self_model_fittings =
        [(''a'', \<lparr>mf_activity_id = 7,
                  mf_param_estimates = [\<lparr>pe_file = ''a/stats/pe1.nii.gz'', pe_id = 11\<rparr>]\<rparr>),
         (''b'', \<lparr>mf_activity_id = 8,
                  mf_param_estimates = [\<lparr>pe_file = ''b/stats/pe1.nii.gz'', pe_id = 21\<rparr>]\<rparr>)],
      self_contrasts = [], self_software_id = 1\<rparr>"

definition world_two :: world where
  "world_two =
     world_none
     \<lparr>w_glob := (\<lambda>d. if d = ''a'' then [''a/thresh_zstat1.nii.gz'']
                    else if d = ''b'' then [''b/thresh_zstat2.nii.gz''] else []),
      w_read := (\<lambda>f. if f = ''a/stats/dof'' then Inr ''96''
                    else if f = ''b/stats/dof'' then Inr ''50'' else Inl IOError)\<rparr>"

text \<open>What a result of \<open>find_contrasts\<close> holds: under every key, the contrast numbers and
  contrast-map files of its records.\<close>

definition contrast_summary ::
  "error + contrast_dict \<times> (string, string) dict
     \<Rightarrow> error + ((nat \<times> nat list) \<times> (string \<times> string) list) list" where
  "contrast_summary r =
     bind_err r (\<lambda>(contrasts, names).
       Inr (map (\<lambda>(key, cons). (key, map (\<lambda>c. (con_contrast_num c, con_map_file c)) cons))
              contrasts))"

section \<open>The Inference Assembler: \<^verbatim>\<open>_find_inferences\<close>\<close>

text \<open>
  The link from an excursion set to its contrast:
  \<^verbatim>\<open>
  con_id = None
  for contrasts in self.contrasts.values():
      for contrast in contrasts:
          s = re.compile('cope\d+\.nii\.gz')
          con_num = s.search(contrast.contrast_map.file)
          con_num = con_num.group()
          con_num = con_num.replace('cope', '').replace('.nii.gz', '')
          if con_num == stat_num:
              con_id = contrast.estimation.id
  assert con_id is not None
  \<close>
\<close>

definition cope_re :: "item list" where
  "cope_re = lit ''cope'' @ [digit_plus] @ lit ''.nii.gz''"

definition derived_con_num :: "contrast \<Rightarrow> error + string" where
  "derived_con_num contrast =
     (case re_search cope_re (con_map_file contrast) of
        None \<Rightarrow> Inl AttributeError
      | Some m \<Rightarrow> Inr (py_replace ''.nii.gz'' [] (py_replace ''cope'' [] (m_whole m))))"

fun link_contrasts :: "contrast list \<Rightarrow> string \<Rightarrow> nat option \<Rightarrow> error + nat option" where
  "link_contrasts [] stat_num con_id = Inr con_id"
| "link_contrasts (contrast # cs) stat_num con_id =
     bind_err (derived_con_num contrast) (\<lambda>num.
       link_contrasts cs stat_num
         (if num = stat_num then Some (con_estimation_id contrast) else con_id))"

fun link_values :: "contrast list list \<Rightarrow> string \<Rightarrow> nat option \<Rightarrow> error + nat option" where
  "link_values [] stat_num con_id = Inr con_id"
| "link_values (cs # css) stat_num con_id =
     bind_err (link_contrasts cs stat_num con_id) (\<lambda>con_id'. link_values css stat_num con_id')"

definition find_con_id :: "contrast_dict \<Rightarrow> string \<Rightarrow> error + nat" where
  "find_con_id cons stat_num =
     bind_err (link_values (map snd cons) stat_num None)
       (\<lambda>con_id. case con_id of None \<Rightarrow> Inl AssertionError | Some i \<Rightarrow> Inr i)"

text \<open>
  The thresholds read from the configuration text:
  \<^verbatim>\<open>
  prob_re = r'.*set fmri\(prob_thresh\) (?P<info>\d+\.?\d+).*'
  z_re = r'.*set fmri\(z_thresh\) (?P<info>\d+\.?\d+).*'
  type_re = r'.*set fmri\(thresh\) (?P<info>\d+).*'

  prob_thresh = float(self._search_in_fsf(prob_re))
  z_thresh = float(self._search_in_fsf(z_re))
  thresh_type = int(self._search_in_fsf(type_re))
  \<close>
\<close>

definition prob_re :: "item list" where
  "prob_re =
     dot_star # lit ''set fmri(prob_thresh) ''
       @ named ''info'' [digit_plus, Rep [Lit CHR ''.''] Opt, digit_plus] @ [dot_star]"

definition z_re :: "item list" where
  "z_re =
     dot_star # lit ''set fmri(z_thresh) ''
       @ named ''info'' [digit_plus, Rep [Lit CHR ''.''] Opt, digit_plus] @ [dot_star]"

definition read_thresholds :: "string \<Rightarrow> error + real \<times> real \<times> int" where
  "read_thresholds txt =
     bind_err (search_fsf txt prob_re) (\<lambda>p.
     bind_err (py_float p) (\<lambda>prob_thresh.
     bind_err (search_fsf txt z_re) (\<lambda>z.
     bind_err (py_float z) (\<lambda>z_thresh.
     bind_err (search_fsf txt type_re) (\<lambda>t.
     bind_err (py_int t) (\<lambda>thresh_type.
       Inr (prob_thresh, z_thresh, thresh_type)))))))"

text \<open>
  \<^verbatim>\<open>
  # FIXME: deal with 0 = no thresh?
  voxel_uncorr = (thresh_type == 1)
  voxel_corr = (thresh_type == 2)
  cluster_thresh = (thresh_type == 3)

  stat_threshold = None
  extent_p_corr = None
  p_corr_threshold = None
  p_uncorr_threshold = None
  if voxel_uncorr:
      p_uncorr_threshold = prob_thresh
  elif voxel_corr:
      p_corr_threshold = prob_thresh
  else:
      stat_threshold = z_thresh
      extent_p_corr = prob_thresh
  \<close>
  The result is \<open>(stat_threshold, extent_p_corr, p_corr_threshold, p_uncorr_threshold)\<close>.
\<close>

definition threshold_fields ::
  "real \<Rightarrow> real \<Rightarrow> int \<Rightarrow> real option \<times> real option \<times> real option \<times> real option" where
  "threshold_fields prob_thresh z_thresh thresh_type =
     (let voxel_uncorr = (thresh_type = 1); voxel_corr = (thresh_type = 2)
      in if voxel_uncorr then (None, None, None, Some prob_thresh)
         else if voxel_corr then (None, None, Some prob_thresh, None)
         else (Some z_thresh, Some prob_thresh, None, None))"

text \<open>
  The peak and cluster criteria, read from the post-processing log when there is one.
  The patterns of the source are \<^verbatim>\<open>r'.* --num=(?P<numpeak>\d+)+ .*'\<close>,
  \<^verbatim>\<open>r'.* -n=(?P<numpeak>\d+)+ .*'\<close>, \<^verbatim>\<open>r'.* --peakdist=(?P<peakdist>\d+)+ .*'\<close> and
  \<^verbatim>\<open>r'.* --connectivity=(?P<connectivity>\d+)+ .*'\<close>. The \<^verbatim>\<open>+\<close> after the group is
  written without it here: the group must be followed by a blank, so whenever the pattern
  matches the first repetition has taken the whole run of digits and is the capture.
\<close>

definition num_re1 :: "item list" where
  "num_re1 = dot_star # lit '' --num='' @ named ''numpeak'' [digit_plus] @ lit '' '' @ [dot_star]"

definition num_re2 :: "item list" where
  "num_re2 = dot_star # lit '' -n='' @ named ''numpeak'' [digit_plus] @ lit '' '' @ [dot_star]"

definition peakdist_re :: "item list" where
  "peakdist_re =
     dot_star # lit '' --peakdist='' @ named ''peakdist'' [digit_plus] @ lit '' '' @ [dot_star]"

definition conn_re :: "item list" where
  "conn_re =
     dot_star # lit '' --connectivity='' @ named ''connectivity'' [digit_plus] @ lit '' ''
       @ [dot_star]"

definition get_num_peaks :: "string option \<Rightarrow> error + int option" where
  "get_num_peaks post_log =
     (case post_log of
        None \<Rightarrow> Inr None
      | Some l \<Rightarrow>
          (case re_search num_re1 l of
             Some m \<Rightarrow>
               bind_err (m_group m ''numpeak'') (\<lambda>g. bind_err (py_int g) (\<lambda>n. Inr (Some n)))
           | None \<Rightarrow>
               (case re_search num_re2 l of
                  Some m \<Rightarrow>
                    bind_err (m_group m ''numpeak'') (\<lambda>g.
                      bind_err (py_int g) (\<lambda>n. Inr (Some n)))
                | None \<Rightarrow> Inr None)))"

definition get_peak_dist :: "string option \<Rightarrow> error + real" where
  "get_peak_dist post_log =
     (case post_log of
        None \<Rightarrow> Inr 0
      | Some l \<Rightarrow>
          (case re_search peakdist_re l of
             Some m \<Rightarrow> bind_err (m_group m ''peakdist'') py_float
           | None \<Rightarrow> Inr 0))"

definition get_connectivity :: "string option \<Rightarrow> error + int option" where
  "get_connectivity post_log =
     (case post_log of
        None \<Rightarrow> Inr None
      | Some l \<Rightarrow>
          (case re_search conn_re l of
             None \<Rightarrow> Inl AttributeError
           | Some m \<Rightarrow>
               bind_err (m_group m ''connectivity'') (\<lambda>g.
                 bind_err (py_int g) (\<lambda>n. Inr (Some n)))))"

text \<open>
  \<^verbatim>\<open>
  if cluster_thresh:
      clusters = self._get_clusters_peaks(stat_num)
      peak_criteria = PeakCriteria(stat_num, self._get_num_peaks(), self._get_peak_dist())
      clus_criteria = ClusterCriteria(stat_num, self._get_connectivity())
  else:
      clusters = None
      peak_criteria = None
      clus_criteria = None
  \<close>
\<close>

definition clusters_and_criteria ::
  "world \<Rightarrow> exporter \<Rightarrow> string \<Rightarrow> int
     \<Rightarrow> error + cluster list option \<times> peak_criteria option \<times> cluster_criteria option" where
  "clusters_and_criteria w self stat_num thresh_type =
     (let cluster_thresh = (thresh_type = 3)
      in if cluster_thresh
         then
           bind_err (get_clusters_peaks w (self_analysis_dirs self) stat_num) (\<lambda>clusters.
           bind_err (get_num_peaks (self_feat_post_log self)) (\<lambda>num_peak.
           bind_err (get_peak_dist (self_feat_post_log self)) (\<lambda>peak_dist.
           bind_err (get_connectivity (self_feat_post_log self)) (\<lambda>connectivity.
             Inr (Some clusters,
                  Some \<lparr>pc_stat_num = stat_num, pc_num_peak = num_peak,
                        pc_peak_dist = peak_dist\<rparr>,
                  Some \<lparr>cc_stat_num = stat_num, cc_connectivity = connectivity\<rparr>)))))
         else Inr (None, None, None))"

text \<open>
  \<^verbatim>\<open>
  m = re.search(r"set fmri\(conmask1_1\) (?P<con_maskg>\d+)", self.design_txt)
  assert m is not None
  contrast_masking = bool(int(m.group("con_maskg")))
  \<close>
\<close>

definition conmask_re :: "item list" where
  "conmask_re = lit ''set fmri(conmask1_1) '' @ named ''con_maskg'' [digit_plus]"

definition contrast_masking :: "string \<Rightarrow> error + bool" where
  "contrast_masking txt =
     (case re_search conmask_re txt of
        None \<Rightarrow> Inl AssertionError
      | Some m \<Rightarrow>
          bind_err (m_group m ''con_maskg'') (\<lambda>g. bind_err (py_int g) (\<lambda>n. Inr (n \<noteq> 0))))"

text \<open>\<^verbatim>\<open>_get_display_mask\<close>: \<^verbatim>\<open>os.path.join(self.feat_dir, 'mask.nii.gz')\<close>.\<close>

definition get_display_mask :: "exporter \<Rightarrow> string" where
  "get_display_mask self = path_join (self_feat_dir self) ''mask.nii.gz''"

text \<open>
  The body of \<^verbatim>\<open>for filename in exc_sets\<close>: the statistic type and number from the file
  name, the link to the contrast, the inference activity (named by
  \<^verbatim>\<open>self.contrast_names_by_num[stat_num]\<close>), the excursion set, the thresholds, the
  clusters and criteria, the display mask, the search space. The result is the key
  \<open>con_id\<close> and the \<^verbatim>\<open>Inference\<close>.
\<close>

definition inference_of ::
  "world \<Rightarrow> exporter \<Rightarrow> string \<Rightarrow> nat \<Rightarrow> string \<Rightarrow> error + nat \<times> inference" where
  "inference_of w self analysis_dir n_exc_sets filename =
     bind_err (exc_set_stat filename) (\<lambda>(stat_type, stat_num).
     let stat_num_t = stat_label n_exc_sets stat_type stat_num in
     bind_err (find_con_id (self_contrasts self) stat_num) (\<lambda>con_id.
     bind_err (dict_get (self_contrast_names_by_num self) stat_num) (\<lambda>contrast_name.
     let visualisation =
           path_join analysis_dir (''rendered_thresh_zstat'' @ stat_num @ ''.png'');
         zFileImg = path_join analysis_dir (''thresh_zstat'' @ stat_num @ ''.nii.gz'')
     in
     bind_err (read_thresholds (self_design_txt self)) (\<lambda>(prob_thresh, z_thresh, thresh_type).
     case threshold_fields prob_thresh z_thresh thresh_type of
       (stat_threshold, extent_p_corr, p_corr_threshold, p_uncorr_threshold) \<Rightarrow>
     bind_err (clusters_and_criteria w self stat_num thresh_type)
       (\<lambda>(clusters, peak_crit, clus_crit).
     bind_err (contrast_masking (self_design_txt self)) (\<lambda>masking.
     bind_err (w_search_space w analysis_dir) (\<lambda>space.
       Inr (con_id,
            \<lparr>inf_stat_num = stat_num, inf_contrast_name = contrast_name,
             inf_stat_threshold = stat_threshold,
             inf_p_corr_threshold = p_corr_threshold,
             inf_p_uncorr_threshold = p_uncorr_threshold,
             inf_extent_p_corr = extent_p_corr,
             inf_peak_criteria = peak_crit,
             inf_clus_criteria = clus_crit,
             inf_display_mask =
               (if masking
                then Some \<lparr>dm_stat_num = stat_num, dm_file = get_display_mask self\<rparr>
                else None),
             inf_exc_set =
               \<lparr>es_file = zFileImg, es_stat_num = stat_num_t,
                es_visualisation = visualisation\<rparr>,
             inf_clusters = clusters,
             inf_search_space = space,
             inf_software_id = self_software_id self\<rparr>))))))))"

text \<open>\<^verbatim>\<open>inferences.setdefault(con_id, list()).append(inference)\<close>, for every excursion set.\<close>

fun inf_exc_loop ::
  "world \<Rightarrow> exporter \<Rightarrow> string \<Rightarrow> nat \<Rightarrow> string list \<Rightarrow> (nat, inference list) dict
     \<Rightarrow> error + (nat, inference list) dict" where
  "inf_exc_loop w self analysis_dir n [] inferences = Inr inferences"
| "inf_exc_loop w self analysis_dir n (filename # files) inferences =
     bind_err (inference_of w self analysis_dir n filename) (\<lambda>(con_id, inference).
       inf_exc_loop w self analysis_dir n files (dict_append inferences con_id inference))"

fun inf_dirs_loop ::
  "world \<Rightarrow> exporter \<Rightarrow> string list \<Rightarrow> (nat, inference list) dict
     \<Rightarrow> error + (nat, inference list) dict" where
  "inf_dirs_loop w self [] inferences = Inr inferences"
| "inf_dirs_loop w self (analysis_dir # dirs) inferences =
     (let exc_sets = w_glob w analysis_dir
      in bind_err (inf_exc_loop w self analysis_dir (length exc_sets) exc_sets inferences)
           (\<lambda>inferences'. inf_dirs_loop w self dirs inferences'))"

definition find_inferences :: "world \<Rightarrow> exporter \<Rightarrow> error + (nat, inference list) dict" where
  "find_inferences w self = inf_dirs_loop w self (self_analysis_dirs self) []"

section \<open>The design type: \<^verbatim>\<open>_get_design_matrix\<close>, first-level branch\<close>

text \<open>
  \<^verbatim>\<open>
  onsets_re = r'.*set fmri\(custom(?P<num>\d+)\)\s*"(?P<file>.*)".*'
  r = re.compile(onsets_re)
  onsets = [m.groupdict() for m in r.finditer(self.design_txt)]
  max_duration = 0
  min_duration = 36000
  for onset in onsets:
      aa = np.loadtxt(onset['file'])
      max_duration = max(max_duration, np.amax(aa[:, 2], axis=None))
      min_duration = min(min_duration, np.amin(aa[:, 2], axis=None))
  if max_duration <= 1:
      design_type = NIDM_EVENT_RELATED_DESIGN
  elif min_duration > 1:
      design_type = NIDM_BLOCK_BASED_DESIGN
  else:
      design_type = NIDM_MIXED_DESIGN
  \<close>
  For a unit that is not first-level the design type is \<^verbatim>\<open>None\<close>.
\<close>

datatype design_type =
  NIDM_EVENT_RELATED_DESIGN | NIDM_BLOCK_BASED_DESIGN | NIDM_MIXED_DESIGN

definition onsets_re :: "item list" where
  "onsets_re =
     dot_star # lit ''set fmri(custom'' @ named ''num'' [digit_plus] @ lit '')''
       @ [Rep [Space] Star] @ lit [CHR 0x22] @ named ''file'' [dot_star] @ lit [CHR 0x22]
       @ [dot_star]"

text \<open>
  \<^verbatim>\<open>aa[:, 2]\<close>: IndexError on an array of fewer than two dimensions or fewer than three
  columns. \<^verbatim>\<open>np.amax\<close> and \<^verbatim>\<open>np.amin\<close> raise ValueError on an empty array.
\<close>

definition column2 :: "ndarray \<Rightarrow> error + real list" where
  "column2 aa =
     (case aa of
        Arr2 rows \<Rightarrow>
          if list_all (\<lambda>r. 2 < length r) rows then Inr (map (\<lambda>r. r ! 2) rows)
          else Inl IndexError
      | _ \<Rightarrow> Inl IndexError)"

definition np_amax :: "real list \<Rightarrow> error + real" where
  "np_amax xs = (case xs of [] \<Rightarrow> Inl ValueError | x # r \<Rightarrow> Inr (foldl max x r))"

definition np_amin :: "real list \<Rightarrow> error + real" where
  "np_amin xs = (case xs of [] \<Rightarrow> Inl ValueError | x # r \<Rightarrow> Inr (foldl min x r))"

fun durations_loop ::
  "world \<Rightarrow> (string \<times> string) list list \<Rightarrow> real \<times> real \<Rightarrow> error + real \<times> real" where
  "durations_loop w [] st = Inr st"
| "durations_loop w (onset # onsets) (max_duration, min_duration) =
     bind_err (dict_get onset ''file'') (\<lambda>file.
     bind_err (w_loadtxt w file) (\<lambda>aa.
     bind_err (column2 aa) (\<lambda>col.
     bind_err (np_amax col) (\<lambda>mx.
     bind_err (column2 aa) (\<lambda>col'.
     bind_err (np_amin col') (\<lambda>mn.
       durations_loop w onsets (max max_duration mx, min min_duration mn)))))))"

definition design_type_of :: "world \<Rightarrow> string \<Rightarrow> bool \<Rightarrow> error + design_type option" where
  "design_type_of w design_txt first_level =
     (if first_level
      then bind_err (durations_loop w (map m_groups (re_finditer onsets_re design_txt)) (0, 36000))
             (\<lambda>(max_duration, min_duration).
                Inr (Some (if max_duration \<le> 1 then NIDM_EVENT_RELATED_DESIGN
                           else if min_duration > 1 then NIDM_BLOCK_BASED_DESIGN
                           else NIDM_MIXED_DESIGN)))
      else Inr None)"

text \<open>
  The classification in the words of the specification, over the durations of all events:
  event-related if the maximum is at most 1, otherwise block-based if the minimum is above
  1, otherwise mixed.
\<close>

definition spec_design_type :: "real list \<Rightarrow> design_type" where
  "spec_design_type ds =
     (if Max (set ds) \<le> 1 then NIDM_EVENT_RELATED_DESIGN
      else if Min (set ds) > 1 then NIDM_BLOCK_BASED_DESIGN
      else NIDM_MIXED_DESIGN)"

text \<open>
  The onset files named in the configuration text, the durations (third column) of one,
  and the condition that a file loads as a two-dimensional array with three columns or more.
\<close>

definition onset_files :: "string \<Rightarrow> string list" where
  "onset_files design_txt =
     map (\<lambda>m. case map_of (m_groups m) ''file'' of None \<Rightarrow> [] | Some f \<Rightarrow> f)
       (re_finditer onsets_re design_txt)"

definition durations :: "world \<Rightarrow> string \<Rightarrow> real list" where
  "durations w f =
     (case w_loadtxt w f of Inr (Arr2 rows) \<Rightarrow> map (\<lambda>r. r ! 2) rows | _ \<Rightarrow> [])"

definition onset_table_ok :: "world \<Rightarrow> string \<Rightarrow> bool" where
  "onset_table_ok w f =
     (case w_loadtxt w f of
        Inr (Arr2 rows) \<Rightarrow> rows \<noteq> [] \<and> list_all (\<lambda>r. 2 < length r) rows
      | _ \<Rightarrow> False)"

text \<open>
  \<open>will_capture n items False\<close>: every match of \<open>items\<close> has a group \<open>n\<close>, because the
  pattern closes \<open>n\<close> after opening it.
\<close>

fun will_capture :: "string \<Rightarrow> item list \<Rightarrow> bool \<Rightarrow> bool" where
  "will_capture n [] opened = False"
| "will_capture n (Open m # r) opened = will_capture n r (opened \<or> m = n)"
| "will_capture n (Close m # r) opened =
     (if m = n \<and> opened then True else will_capture n r (opened \<and> m \<noteq> n))"
| "will_capture n (Rep cs q # r) opened = will_capture n r opened"

definition ev_txt :: string where
  "ev_txt = ''set fmri(custom1) '' @ [CHR 0x22] @ ''ev1.txt'' @ [CHR 0x22, CHR 0x0A]"

definition world_event :: world where
  "world_event =
     world_none
     \<lparr>w_loadtxt := (\<lambda>f. if f = ''ev1.txt''
                       then Inr (Arr2 [[0, 10, 0.5], [20, 10, 0.8], [40, 10, 1.0]])
                       else Inl IOError)\<rparr>"

definition world_block :: world where
  "world_block =
     world_none
     \<lparr>w_loadtxt := (\<lambda>f. if f = ''ev1.txt''
                       then Inr (Arr2 [[0, 10, 4], [20, 10, 4], [40, 10, 6]])
                       else Inl IOError)\<rparr>"





definition rows5 :: table where
  "rows5 = [[1, 5.2, 10, 20, 30], [1, 4.1, 11, 21, 31], [2, 6.0, 40, 50, 60],
            [2, 3.9, 41, 51, 61], [2, 3.5, 42, 52, 62]]"

definition clusters2 :: table where
  "clusters2 = [[2, 120, 0.001, 0, 0, 0, 0, 0, 41, 51, 61],
                [1, 80, 0.01, 0, 0, 0, 0, 0, 10, 20, 30]]"

definition world_ok :: world where
  "world_ok =
     world_none
     \<lparr>w_tables := (\<lambda>f. if f = ''a/lmax_zstat1.txt'' then Some (Inr rows5)
                      else if f = ''a/cluster_zstat1.txt'' then Some (Inr clusters2)
                      else None)\<rparr>"




definition world_minus_one :: world where
  "world_minus_one =
     world_none
     \<lparr>w_tables := (\<lambda>f. if f = ''a/lmax_zstat1.txt'' then Some (Inr [[- 1, 3.2, 10, 20, 30]])
                      else None)\<rparr>"

definition thresh_txt :: string where
  "thresh_txt = ''set fmri(thresh) 3''"

text \<open>Example inputs for the Inference Assembler.\<close>

definition inf_txt :: "char \<Rightarrow> string" where
  "inf_txt t =
     ''set fmri(prob_thresh) 0.05'' @ [CHR 0x0A] @ ''set fmri(z_thresh) 2.3'' @ [CHR 0x0A]
     @ ''set fmri(thresh) '' @ [t, CHR 0x0A] @ ''set fmri(conmask1_1) 0'' @ [CHR 0x0A]"

definition con_one :: contrast where
  "con_one =
     \<lparr>con_contrast_num = ''1'', con_name = ''one'', con_weights = ''[1]'',
      con_stat_type = ''T'', con_stat_num = [], con_estimation_id = 40,
      con_map_file = ''a/stats/cope1.nii.gz'', con_std_err_file = ''a/stats/varcope1.nii.gz'',
      con_stat_file = ''a/stats/tstat1.nii.gz'', con_z_stat_file = ''a/stats/zstat1.nii.gz'',
      con_dof = 96\<rparr>"

definition self_inf :: "char \<Rightarrow> exporter" where
  "self_inf t =
     \<lparr>self_feat_dir = ''a'', self_design_txt = inf_txt t, self_feat_post_log = None,
      self_analysis_dirs = [''a''], self_contrast_names_by_num = [(''1'', ''one'')],
      self_model_fittings = [], self_contrasts = [((7, []), [con_one])],
      self_software_id = 1\<rparr>"

definition world_inf :: world where
  "world_inf =
     world_ok
     \<lparr>w_glob := (\<lambda>d. if d = ''a'' then [''a/thresh_zstat1.nii.gz''] else []),
      w_search_space := (\<lambda>d. Inr (SearchSpace (path_join d ''mask.nii.gz'')))\<rparr>"

definition world_unmatched :: world where
  "world_unmatched =
     world_inf\<lparr>w_glob := (\<lambda>d. if d = ''a'' then [''a/thresh_zstat2.nii.gz''] else [])\<rparr>"

text \<open>An onset file with a single event: the array read from it has one dimension.\<close>

definition world_single :: world where
  "world_single =
     world_none
     \<lparr>w_loadtxt := (\<lambda>f. if f = ''ev1.txt'' then Inr (Arr1 [0, 10, 0.5]) else Inl IOError)\<rparr>"

text \<open>
  Two analysis directories: \<open>a\<close> with two peaks of cluster 1, \<open>b\<close> with two peaks and
  one cluster of id \<open>-1\<close>. And the peak indices held by a result of the merger, cluster
  by cluster.
\<close>

definition peaks_a :: table where
  "peaks_a = [[1, 5.2, 10, 20, 30], [1, 4.1, 11, 21, 31]]"

definition peaks_b :: table where
  "peaks_b = [[- 1, 3.2, 40, 50, 60], [- 1, 3.1, 41, 51, 61]]"

definition clusters_b :: table where
  "clusters_b = [[- 1, 120, 0.001, 0, 0, 0, 0, 0, 40, 50, 60]]"

definition world_ab :: world where
  "world_ab =
     world_none
     \<lparr>w_tables := (\<lambda>f. if f = ''a/lmax_zstat1.txt'' then Some (Inr peaks_a)
                      else if f = ''b/lmax_zstat1.txt'' then Some (Inr peaks_b)
                      else if f = ''b/cluster_zstat1.txt'' then Some (Inr clusters_b)
                      else None)\<rparr>"

definition peak_indices_of :: "error + cluster list \<Rightarrow> error + (int \<times> int list) list" where
  "peak_indices_of r =
     bind_err r (\<lambda>cs. Inr (map (\<lambda>c. (c_cluster_num c, map p_index (c_peaks c))) cs))"

section \<open>Properties\<close>

subsection \<open>Sequencing\<close>

lemma bind_err_Inr [simp]: "bind_err (Inr v) f = f v"
  by (simp add: bind_err_def)

lemma bind_err_Inl [simp]: "bind_err (Inl e) f = Inl e"
  by (simp add: bind_err_def)

lemma bind_err_eq_Inr: "bind_err r f = Inr y \<longleftrightarrow> (\<exists>v. r = Inr v \<and> f v = Inr y)"
  by (cases r) simp_all

subsection \<open>The Pattern Extractor\<close>

text \<open>
  C8. For every pattern and configuration text, the lookup returns the text captured by
  the group \<^verbatim>\<open>info\<close> when the pattern matches somewhere in the text. When it matches
  nowhere, the lookup raises (AttributeError) unless tolerant lookup was requested, and
  returns \<^verbatim>\<open>None\<close> if it was.
\<close>

theorem search_in_fsf_contract:
  "(re_search regexp txt = Some m \<and> m_group m ''info'' = Inr s
      \<longrightarrow> search_in_fsf txt regexp tolerant = Inr (Some s))
   \<and> (re_search regexp' txt' = None
      \<longrightarrow> search_in_fsf txt' regexp' False = Inl AttributeError
        \<and> search_in_fsf txt' regexp' True = Inr None)"
  by (simp add: search_in_fsf_def bind_err_def)

theorem search_in_fsf_contract_witness:
  "search_in_fsf thresh_txt type_re False = Inr (Some ''3'')
   \<and> search_in_fsf ''set fmri(level) 1'' type_re False = Inl AttributeError
   \<and> search_in_fsf ''set fmri(level) 1'' type_re True = Inr None"
proof -
  have a: "re_search type_re thresh_txt
             = Some \<lparr>m_whole = ''set fmri(thresh) 3'', m_groups = [(''info'', ''3'')], m_rest = []\<rparr>
           \<and> m_group \<lparr>m_whole = ''set fmri(thresh) 3'', m_groups = [(''info'', ''3'')], m_rest = []\<rparr> ''info''
             = Inr ''3''"
    by code_simp
  have b: "re_search type_re ''set fmri(level) 1'' = None"
    by code_simp
  from search_in_fsf_contract[of type_re thresh_txt _ "''3''" False type_re "''set fmri(level) 1''"]
    a b show ?thesis by blast
qed

subsection \<open>The Cluster/Peak Merger\<close>


lemma peaks_under_Nil [simp]: "peaks_under [] k = []"
  by (simp add: peaks_under_def)













lemma peaks_loop_unbound:
  "py_trunc v = - 1 \<Longrightarrow> peaks_loop mk ((v # vs) # rows) (peaks, - 1, None) = Inl UnboundLocalError"
  by (simp add: row_get_def Let_def)

lemma peaks_of_dir_unbound:
  assumes "pt = Some ((v # vs) # rows) \<and> (pst = None \<or> (\<exists>t. pst = Some t \<and> length t = Suc (length rows)))
         \<or> pt = None \<and> pst = Some ((v # vs) # rows)"
    and "py_trunc v = - 1"
  shows "peaks_of_dir sn pt pst None = Inl UnboundLocalError"
proof -
  have joined: "column_stack ((v # vs) # rows) t = Inr ((v # vs @ hd t) # map (\<lambda>(r, r'). r @ r') (zip rows (tl t)))"
    if "length t = Suc (length rows)" for t
    using that by (cases t) (auto simp: column_stack_def)
  from assms show ?thesis
    by (auto simp: peaks_of_dir_def joined row_get_def Let_def)
qed

lemma merge_dirs_append:
  "merge_dirs w sn (ds0 @ ds) st = bind_err (merge_dirs w sn ds0 st) (merge_dirs w sn ds)"
proof (induction ds0 arbitrary: st)
  case Nil
  then show ?case by simp
next
  case (Cons d ds0)
  then show ?case by (cases "merge_dir w sn d st") simp_all
qed

text \<open>
  C10, as stated, does not hold in every analysis directory: \<^verbatim>\<open>prev_cluster\<close> is set to
  \<open>-1\<close> for each directory but \<^verbatim>\<open>peakIndex\<close> keeps its value. After directory \<open>a\<close> has
  given the indices 1 and 2, the peak table of directory \<open>b\<close>, whose first row has cluster
  id \<open>-1\<close>, raises nothing: its peaks get the indices 3 and 4 and a cluster is returned.
\<close>

theorem later_directory_minus_one_no_error:
  "peak_indices_of (get_clusters_peaks world_ab [''a'', ''b''] ''1'') = Inr [(- 1, [3, 4])]"
  by (simp add: peak_indices_of_def get_clusters_peaks_def merge_dir_def load_table_def
        world_ab_def path_join_def startswith_def peaks_of_dir_def clusters_of_dir_def
        peaks_a_def peaks_b_def clusters_b_def mk_peak_vox_def mk_cluster_vox_def row_get_def
        py_trunc_def dict_get_def Let_def)

text \<open>
  C10 (corrected). The previous-cluster tracker starts at \<open>-1\<close> in every analysis directory.
  In a directory that is reached with \<^verbatim>\<open>peakIndex\<close> still unassigned (the directories \<open>ds0\<close>
  before it were processed without error and without a peak row; the first directory is the
  case \<open>ds0 = []\<close>), if the four table files load or are absent and the first peak row read
  has cluster id \<open>-1\<close>, the reset branch is skipped and the merger fails with
  UnboundLocalError; no peak and no cluster is returned.
\<close>

theorem peak_index_unbound:
  assumes "merge_dirs w sn ds0 ([], None) = Inr (acc, None)"
    and "load_table w (path_join d (''cluster_zstat'' @ sn @ ''.txt'')) = Inr ct"
    and "load_table w (path_join d (''cluster_zstat'' @ sn @ ''_std.txt'')) = Inr cst"
    and "load_table w (path_join d (''lmax_zstat'' @ sn @ ''.txt'')) = Inr pt"
    and "load_table w (path_join d (''lmax_zstat'' @ sn @ ''_std.txt'')) = Inr pst"
    and "pt = Some ((v # vs) # rows) \<and> (pst = None \<or> (\<exists>t. pst = Some t \<and> length t = Suc (length rows)))
         \<or> pt = None \<and> pst = Some ((v # vs) # rows)"
    and "py_trunc v = - 1"
  shows "get_clusters_peaks w (ds0 @ d # ds) sn = Inl UnboundLocalError"
  using assms(1-5) peaks_of_dir_unbound[OF assms(6,7)]
  by (simp add: get_clusters_peaks_def merge_dirs_append merge_dir_def)

theorem peak_index_unbound_witness:
  "get_clusters_peaks world_minus_one [''c'', ''a''] ''1'' = Inl UnboundLocalError
   \<and> get_clusters_peaks world_minus_one [''a''] ''1'' = Inl UnboundLocalError"
proof -
  have e0: "merge_dirs world_minus_one ''1'' [] ([], None) = Inr ([], None)" by simp
  have e1: "merge_dirs world_minus_one ''1'' [''c''] ([], None) = Inr ([], None)"
    by (simp add: merge_dir_def load_table_def world_minus_one_def world_none_def path_join_def
          startswith_def peaks_of_dir_def clusters_of_dir_def)
  have a: "load_table world_minus_one (path_join ''a'' (''cluster_zstat'' @ ''1'' @ ''.txt'')) = Inr None"
    by (simp add: load_table_def world_minus_one_def path_join_def startswith_def)
  have b: "load_table world_minus_one (path_join ''a'' (''cluster_zstat'' @ ''1'' @ ''_std.txt'')) = Inr None"
    by (simp add: load_table_def world_minus_one_def path_join_def startswith_def)
  have c: "load_table world_minus_one (path_join ''a'' (''lmax_zstat'' @ ''1'' @ ''.txt''))
             = Inr (Some (((- 1) # [3.2, 10, 20, 30]) # []))"
    by (simp add: load_table_def world_minus_one_def path_join_def startswith_def)
  have d: "load_table world_minus_one (path_join ''a'' (''lmax_zstat'' @ ''1'' @ ''_std.txt'')) = Inr None"
    by (simp add: load_table_def world_minus_one_def path_join_def startswith_def)
  have e: "Some (((- 1) # [3.2, 10, 20, 30]) # []) = Some (((- 1::real) # [3.2, 10, 20, 30]) # [])
             \<and> (None = None \<or> (\<exists>t. (None :: table option) = Some t \<and> length t = Suc (length ([] :: table))))
         \<or> Some (((- 1) # [3.2, 10, 20, 30]) # []) = None \<and> (None :: table option) = Some (((- 1::real) # [3.2, 10, 20, 30]) # [])"
    by simp
  have f: "py_trunc (- 1) = - 1" by (simp add: py_trunc_def)
  have A: "get_clusters_peaks world_minus_one ([''c''] @ ''a'' # []) ''1'' = Inl UnboundLocalError"
    using peak_index_unbound[OF e1 a b c d e f] .
  have B: "get_clusters_peaks world_minus_one ([] @ ''a'' # []) ''1'' = Inl UnboundLocalError"
    using peak_index_unbound[OF e0 a b c d e f] .
  from A B show ?thesis by simp
qed




















subsection \<open>The design type\<close>

lemma foldl_max_le: "foldl max a xs \<le> b \<longleftrightarrow> a \<le> b \<and> (\<forall>x\<in>set xs. x \<le> (b::real))"
  by (induction xs arbitrary: a) auto

lemma foldl_min_gr: "b < foldl min a xs \<longleftrightarrow> b < a \<and> (\<forall>x\<in>set xs. (b::real) < x)"
  by (induction xs arbitrary: a) auto

lemma durations_loop_ok:
  assumes "list_all (\<lambda>g. \<exists>f. map_of g ''file'' = Some f \<and> onset_table_ok w f) gs"
  shows "\<exists>mx' mn'. durations_loop w gs (mx, mn) = Inr (mx', mn')
     \<and> (\<forall>b. (mx' \<le> b \<longleftrightarrow> mx \<le> b \<and>
            (\<forall>x\<in>set (concat (map (\<lambda>g. durations w (case map_of g ''file'' of None \<Rightarrow> [] | Some f \<Rightarrow> f)) gs)). x \<le> b))
          \<and> (b < mn' \<longleftrightarrow> b < mn \<and>
            (\<forall>x\<in>set (concat (map (\<lambda>g. durations w (case map_of g ''file'' of None \<Rightarrow> [] | Some f \<Rightarrow> f)) gs)). b < x)))"
  using assms
proof (induction gs arbitrary: mx mn)
  case Nil
  then show ?case by simp
next
  case (Cons g gs)
  from Cons.prems obtain f where f: "map_of g ''file'' = Some f" and ok: "onset_table_ok w f"
    and rest: "list_all (\<lambda>g. \<exists>f. map_of g ''file'' = Some f \<and> onset_table_ok w f) gs"
    by auto
  from ok obtain rows where rows: "w_loadtxt w f = Inr (Arr2 rows)" "rows \<noteq> []"
    "list_all (\<lambda>r. 2 < length r) rows"
    by (auto simp: onset_table_ok_def split: sum.splits ndarray.splits)
  let ?col = "map (\<lambda>r. r ! 2) rows"
  from rows obtain x r where col: "?col = x # r" by (cases rows) auto
  have d: "durations w f = ?col" using rows by (simp add: durations_def)
  from Cons.IH[OF rest, of "max mx (foldl max x r)" "min mn (foldl min x r)"]
  obtain mx' mn' where
    loop: "durations_loop w gs (max mx (foldl max x r), min mn (foldl min x r)) = Inr (mx', mn')"
    and iff: "\<forall>b. (mx' \<le> b \<longleftrightarrow> max mx (foldl max x r) \<le> b \<and>
            (\<forall>x\<in>set (concat (map (\<lambda>g. durations w (case map_of g ''file'' of None \<Rightarrow> [] | Some f \<Rightarrow> f)) gs)). x \<le> b))
          \<and> (b < mn' \<longleftrightarrow> b < min mn (foldl min x r) \<and>
            (\<forall>x\<in>set (concat (map (\<lambda>g. durations w (case map_of g ''file'' of None \<Rightarrow> [] | Some f \<Rightarrow> f)) gs)). b < x))"
    by blast
  have step: "durations_loop w (g # gs) (mx, mn) = Inr (mx', mn')"
    using f rows col loop
    by (simp add: dict_get_def column2_def np_amax_def np_amin_def)
  show ?case
    using step iff f d col
    by (auto simp: foldl_max_le foldl_min_gr)
qed

lemma fst_push [simp]: "fst ` set (push c opens) = fst ` set opens"
  by (force simp: push_def)

lemma rmatch_keeps:
  "rmatch items s opens caps = Some (caps', rest) \<Longrightarrow> n \<in> fst ` set caps
     \<Longrightarrow> n \<in> fst ` set caps'"
  by (induction items s opens caps rule: rmatch.induct)
     (auto split: if_splits option.splits)

lemma rmatch_captures:
  "rmatch items s opens caps = Some (caps', rest)
     \<Longrightarrow> will_capture n items (n \<in> fst ` set opens) \<Longrightarrow> n \<in> fst ` set caps'"
proof (induction items s opens caps rule: rmatch.induct)
  case (2 m r s opens caps)
  have "(n \<in> fst ` set ((m, []) # opens)) = (n \<in> fst ` set opens \<or> m = n)" by auto
  with "2.prems" "2.IH" show ?case by simp
next
  case (3 m r s opens caps)
  show ?case
  proof (cases "m = n \<and> n \<in> fst ` set opens")
    case True
    then have "n \<in> fst ` set (caps @ filter (\<lambda>(k, acc). k = m) opens)" by force
    moreover from "3.prems"(1) have
      "rmatch r s (filter (\<lambda>(k, acc). k \<noteq> m) opens) (caps @ filter (\<lambda>(k, acc). k = m) opens)
         = Some (caps', rest)" by simp
    ultimately show ?thesis by (rule rmatch_keeps[rotated])
  next
    case False
    then have "(n \<in> fst ` set (filter (\<lambda>(k, acc). k \<noteq> m) opens))
                 = (n \<in> fst ` set opens \<and> m \<noteq> n)" by force
    with "3.prems" False "3.IH" show ?thesis by auto
  qed
qed (auto split: if_splits option.splits)

lemma re_search_captures:
  "re_search items s = Some m \<Longrightarrow> will_capture n items False
     \<Longrightarrow> \<exists>g. map_of (m_groups m) n = Some g"
proof (induction items s rule: re_search.induct)
  case (1 items)
  then show ?case
    by (auto simp: re_match_def weak_map_of_SomeI split: option.splits
             dest!: rmatch_captures[where n = n])
next
  case (2 items c s)
  then show ?case
    by (auto simp: re_match_def weak_map_of_SomeI split: option.splits
             dest!: rmatch_captures[where n = n])
qed

lemma re_finditer_captures:
  "m \<in> set (re_finditer items s) \<Longrightarrow> will_capture n items False
     \<Longrightarrow> \<exists>g. map_of (m_groups m) n = Some g"
proof (induction items s rule: re_finditer.induct)
  case (1 items s)
  show ?case
  proof (cases "re_search items s")
    case None
    with "1.prems"(1) show ?thesis by (simp add: re_finditer.simps)
  next
    case (Some x)
    have here: "\<exists>g. map_of (m_groups x) n = Some g"
      using re_search_captures[OF Some "1.prems"(2)] .
    show ?thesis
    proof (cases "m_whole x = []")
      case True
      show ?thesis
      proof (cases "m_rest x")
        case Nil
        with "1.prems"(1) Some True here show ?thesis
          by (simp add: re_finditer.simps[of items s])
      next
        case (Cons c t)
        with "1.prems"(1) Some True have "m = x \<or> m \<in> set (re_finditer items t)"
          by (simp add: re_finditer.simps[of items s])
        with here "1.IH"(1)[OF Some True Cons _ "1.prems"(2)] show ?thesis by blast
      qed
    next
      case False
      with "1.prems"(1) Some have "m = x \<or> m \<in> set (re_finditer items (m_rest x))"
        by (simp add: re_finditer.simps[of items s])
      with here "1.IH"(2)[OF Some False _ "1.prems"(2)] show ?thesis by blast
    qed
  qed
qed

lemma onsets_re_file: "will_capture ''file'' onsets_re False"
  by (simp add: onsets_re_def lit_def named_def dot_star_def digit_plus_def)

text \<open>
  On onset files that load as two-dimensional arrays the classification is the rule of the
  specification. For a first-level unit whose configuration names at least one onset file
  and whose onset files all load as two-dimensional arrays with at least three columns, the
  design type is event-related if the maximum of the durations of all events of all onset
  files is at most 1, otherwise block-based if the minimum is strictly greater than 1,
  otherwise mixed.
\<close>

theorem design_type_by_durations:
  assumes "onset_files txt \<noteq> []" and "list_all (onset_table_ok w) (onset_files txt)"
  shows "design_type_of w txt True
           = Inr (Some (spec_design_type (concat (map (durations w) (onset_files txt)))))"
proof -
  let ?ms = "re_finditer onsets_re txt"
  let ?gs = "map m_groups ?ms"
  let ?ds = "concat (map (durations w) (onset_files txt))"
  have has_file: "\<exists>f. map_of (m_groups m) ''file'' = Some f" if "m \<in> set ?ms" for m
    using re_finditer_captures[OF that onsets_re_file] .
  have gs_ok: "list_all (\<lambda>g. \<exists>f. map_of g ''file'' = Some f \<and> onset_table_ok w f) ?gs"
    using assms(2) has_file by (fastforce simp: list_all_iff onset_files_def)
  have ds_eq: "concat (map (\<lambda>g. durations w (case map_of g ''file'' of None \<Rightarrow> [] | Some f \<Rightarrow> f)) ?gs)
                 = ?ds"
    by (simp add: onset_files_def comp_def)
  from durations_loop_ok[OF gs_ok, of 0 36000, unfolded ds_eq] obtain mx' mn' where
    loop: "durations_loop w ?gs (0, 36000) = Inr (mx', mn')"
    and mx: "\<And>b. mx' \<le> b \<longleftrightarrow> 0 \<le> b \<and> (\<forall>x\<in>set ?ds. x \<le> b)"
    and mn: "\<And>b. b < mn' \<longleftrightarrow> b < 36000 \<and> (\<forall>x\<in>set ?ds. b < x)"
    by blast
  obtain f fs where fs: "onset_files txt = f # fs" using assms(1) by (cases "onset_files txt") auto
  with assms(2) have "onset_table_ok w f" by simp
  then have "durations w f \<noteq> []"
    by (auto simp: onset_table_ok_def durations_def split: sum.splits ndarray.splits)
  with fs have ne: "set ?ds \<noteq> {}" by simp
  have "mx' \<le> 1 \<longleftrightarrow> Max (set ?ds) \<le> 1" using mx[of 1] ne by simp
  moreover have "1 < mn' \<longleftrightarrow> 1 < Min (set ?ds)" using mn[of 1] ne by simp
  ultimately show ?thesis
    using loop by (simp add: design_type_of_def spec_design_type_def)
qed

text \<open>Durations \<open>[0.5, 0.8, 1.0]\<close> give event-related, \<open>[4, 4, 6]\<close> block-based.\<close>

theorem design_type_by_durations_witness:
  "design_type_of world_event ev_txt True = Inr (Some NIDM_EVENT_RELATED_DESIGN)
   \<and> design_type_of world_block ev_txt True = Inr (Some NIDM_BLOCK_BASED_DESIGN)"
proof -
  have files: "onset_files ev_txt = [''ev1.txt'']" by code_simp
  have ne: "onset_files ev_txt \<noteq> []" by (simp add: files)
  have ok1: "list_all (onset_table_ok world_event) (onset_files ev_txt)"
    by (simp add: files onset_table_ok_def world_event_def)
  have ok2: "list_all (onset_table_ok world_block) (onset_files ev_txt)"
    by (simp add: files onset_table_ok_def world_block_def)
  have d1: "spec_design_type (concat (map (durations world_event) (onset_files ev_txt)))
              = NIDM_EVENT_RELATED_DESIGN"
    by (simp add: files durations_def world_event_def spec_design_type_def)
  have d2: "spec_design_type (concat (map (durations world_block) (onset_files ev_txt)))
              = NIDM_BLOCK_BASED_DESIGN"
    by (simp add: files durations_def world_block_def spec_design_type_def)
  from design_type_by_durations[OF ne ok1] design_type_by_durations[OF ne ok2] d1 d2
  show ?thesis by simp
qed

lemma ev_txt_onsets:
  "map m_groups (re_finditer onsets_re ev_txt) = [[(''num'', ''1''), (''file'', ''ev1.txt'')]]"
  by code_simp

text \<open>
  C9 (the code differs). A first-level unit whose only onset file holds a single event of
  duration 0.5. \<^verbatim>\<open>np.loadtxt\<close> is called without \<^verbatim>\<open>ndmin=2\<close>, so the file is read as a
  one-dimensional array and \<^verbatim>\<open>aa[:, 2]\<close> raises IndexError: the unit gets no design
  type, where the rule of the specification gives event-related.
\<close>

theorem design_type_single_event_raises:
  "design_type_of world_single ev_txt True = Inl IndexError"
  by (simp add: design_type_of_def ev_txt_onsets dict_get_def world_single_def column2_def)

subsection \<open>The Contrast Assembler\<close>

lemma pe_scan_keeps: "pe_scan pes i ids = Inr ids' \<Longrightarrow> ids' = ids"
  by (induction pes arbitrary: ids) (auto simp: py_eq_def Let_def split: option.splits)

lemma mf_scan_keeps: "mf_scan mfs i ids = Inr ids' \<Longrightarrow> ids' = ids"
  by (induction mfs arbitrary: ids) (auto simp: bind_err_eq_Inr dest: pe_scan_keeps)

lemma weights_loop_keeps: "weights_loop ws mfs i ids = Inr ids' \<Longrightarrow> ids' = ids"
  by (induction ws arbitrary: i ids)
     (auto simp: bind_err_eq_Inr dest: mf_scan_keeps split: if_splits)

text \<open>
  The comparison \<^verbatim>\<open>pe_num == pe_index\<close> is between a string and an integer and never
  holds, so no identifier is ever appended: whatever the weights, the tuple is empty.
\<close>

lemma find_pe_ids_empty: "find_pe_ids cw mfs = Inr ids \<Longrightarrow> ids = []"
  by (auto simp: find_pe_ids_def dest: weights_loop_keeps)

lemma weights_example: "contrast_weights_of weights_txt ''1'' = ''[1, -1, 2, 0]''"
  by code_simp

lemma pe_ids_example: "find_pe_ids ''[1, -1, 2, 0]'' mfs4 = Inr []"
  by code_simp

text \<open>
  C1 (the code differs). The configuration text gives contrast 1 the weights
  \<open>[1, -1, 2, 0]\<close> and the model fitting has the parameter estimates \<open>pe1\<close> to \<open>pe4\<close> with
  identifiers 11 to 14. The specification selects the estimate at position 1 (identifier
  11); the code returns the empty tuple.
\<close>

theorem pe_ids_of_weights_1_m1_2_0:
  "find_pe_ids (contrast_weights_of weights_txt ''1'') mfs4 = Inr []"
  by (simp add: weights_example pe_ids_example)

lemma two_files:
  "exc_set_stat ''a/thresh_zstat1.nii.gz'' = Inr (''T'', ''1'')"
  "exc_set_stat ''b/thresh_zstat2.nii.gz'' = Inr (''T'', ''2'')"
  by code_simp+

lemma two_names:
  "search_fsf two_txt (name_re ''1'') = Inr ''one''"
  "search_fsf two_txt (name_re ''2'') = Inr ''two''"
  by code_simp+

lemma two_weights:
  "contrast_weights_of two_txt ''1'' = ''[1]''"
  "contrast_weights_of two_txt ''2'' = ''[1]''"
  by code_simp+

lemma two_pe_ids: "find_pe_ids ''[1]'' (self_model_fittings self_two) = Inr []"
  by code_simp

lemma two_dof: "py_float ''96'' = Inr 96" "py_float ''50'' = Inr 50"
  by code_simp+

lemma two_paths:
  "path_join ''a'' ''stats'' = ''a/stats''" "path_join ''b'' ''stats'' = ''b/stats''"
  "path_join ''a/stats'' ''dof'' = ''a/stats/dof''" "path_join ''b/stats'' ''dof'' = ''b/stats/dof''"
  by code_simp+

lemma two_self:
  "self_design_txt self_two = two_txt" "self_analysis_dirs self_two = [''a'', ''b'']"
  "self_contrast_names_by_num self_two = []"
  by (simp_all add: self_two_def)

lemma two_mf:
  "dict_get (self_model_fittings self_two) ''a''
     = Inr \<lparr>mf_activity_id = 7,
            mf_param_estimates = [\<lparr>pe_file = ''a/stats/pe1.nii.gz'', pe_id = 11\<rparr>]\<rparr>"
  "dict_get (self_model_fittings self_two) ''b''
     = Inr \<lparr>mf_activity_id = 8,
            mf_param_estimates = [\<lparr>pe_file = ''b/stats/pe1.nii.gz'', pe_id = 21\<rparr>]\<rparr>"
  by (simp_all add: self_two_def dict_get_def)

lemma two_world:
  "w_glob world_two ''a'' = [''a/thresh_zstat1.nii.gz'']"
  "w_glob world_two ''b'' = [''b/thresh_zstat2.nii.gz'']"
  "w_read world_two ''a/stats/dof'' = Inr ''96''"
  "w_read world_two ''b/stats/dof'' = Inr ''50''"
  by (simp_all add: world_two_def)

text \<open>
  C5 (the code differs). Two analysis units \<open>a\<close> and \<open>b\<close>, each with one excursion set
  (contrast 1 in \<open>a\<close>, contrast 2 in \<open>b\<close>). The mapping returned holds one entry only:
  contrast 2 under the model fitting of \<open>b\<close>. The record for the excursion set of \<open>a\<close> is
  not in it, because \<^verbatim>\<open>contrasts = dict()\<close> is executed again in every pass of the inner
  loop over the analysis directories.
\<close>

theorem find_contrasts_two_units:
  "contrast_summary (find_contrasts world_two self_two 100)
     = Inr [((8, []), [(''2'', ''b/stats/cope2.nii.gz'')])]"
  by (simp add: contrast_summary_def find_contrasts_def contrast_of_def two_self two_mf
        two_world two_paths two_dof two_files two_names two_weights two_pe_ids
        stat_label_def Let_def path_join_def startswith_def)

subsection \<open>The Inference Assembler\<close>

text \<open>
  C3. Whenever an inference is assembled for an excursion set and the configuration text
  gives the thresholds \<open>(prob_thresh, z_thresh, thresh_type)\<close>: with code 1 only the
  uncorrected probability threshold is populated, with code 2 only the corrected one (in
  both cases the statistic threshold, the extent probability, the cluster list and the
  peak and cluster criteria are absent); with code 3 the statistic threshold and the extent
  probability are populated, the two probability thresholds are absent, and the peak and
  cluster criteria and the cluster list are present.
\<close>

theorem threshold_spec_one_hot:
  assumes "inference_of w self dir n filename = Inr (con_id, i)"
    and "read_thresholds (self_design_txt self) = Inr (prob_thresh, z_thresh, thresh_type)"
  shows "(thresh_type = 1 \<longrightarrow>
            inf_p_uncorr_threshold i = Some prob_thresh \<and> inf_p_corr_threshold i = None
            \<and> inf_stat_threshold i = None \<and> inf_extent_p_corr i = None
            \<and> inf_clusters i = None \<and> inf_peak_criteria i = None
            \<and> inf_clus_criteria i = None)
       \<and> (thresh_type = 2 \<longrightarrow>
            inf_p_corr_threshold i = Some prob_thresh \<and> inf_p_uncorr_threshold i = None
            \<and> inf_stat_threshold i = None \<and> inf_extent_p_corr i = None
            \<and> inf_clusters i = None \<and> inf_peak_criteria i = None
            \<and> inf_clus_criteria i = None)
       \<and> (thresh_type = 3 \<longrightarrow>
            inf_stat_threshold i = Some z_thresh \<and> inf_extent_p_corr i = Some prob_thresh
            \<and> inf_p_corr_threshold i = None \<and> inf_p_uncorr_threshold i = None
            \<and> inf_peak_criteria i \<noteq> None \<and> inf_clus_criteria i \<noteq> None
            \<and> inf_clusters i \<noteq> None)"
  using assms
  by (auto simp: inference_of_def bind_err_eq_Inr threshold_fields_def
        clusters_and_criteria_def Let_def split: prod.splits if_splits)

lemma inf_file: "exc_set_stat ''a/thresh_zstat1.nii.gz'' = Inr (''T'', ''1'')"
  by code_simp

lemma inf_link: "find_con_id [((7, []), [con_one])] ''1'' = Inr 40"
  by code_simp

lemma inf_thresholds:
  "read_thresholds (inf_txt CHR ''0'') = Inr (0.05, 2.3, 0)"
  "read_thresholds (inf_txt CHR ''1'') = Inr (0.05, 2.3, 1)"
  "read_thresholds (inf_txt CHR ''2'') = Inr (0.05, 2.3, 2)"
  "read_thresholds (inf_txt CHR ''3'') = Inr (0.05, 2.3, 3)"
  by code_simp+

lemma inf_masking:
  "contrast_masking (inf_txt CHR ''0'') = Inr False"
  "contrast_masking (inf_txt CHR ''1'') = Inr False"
  "contrast_masking (inf_txt CHR ''2'') = Inr False"
  "contrast_masking (inf_txt CHR ''3'') = Inr False"
  by code_simp+

lemma inf_self:
  "self_design_txt (self_inf t) = inf_txt t"
  "self_contrasts (self_inf t) = [((7, []), [con_one])]"
  "self_contrast_names_by_num (self_inf t) = [(''1'', ''one'')]"
  "self_analysis_dirs (self_inf t) = [''a'']"
  "self_feat_post_log (self_inf t) = None"
  "self_feat_dir (self_inf t) = ''a''"
  "self_software_id (self_inf t) = 1"
  by (simp_all add: self_inf_def)

lemma inf_world:
  "w_search_space world_inf ''a'' = Inr (SearchSpace ''a/mask.nii.gz'')"
  "w_glob world_inf ''a'' = [''a/thresh_zstat1.nii.gz'']"
  by (simp_all add: world_inf_def path_join_def startswith_def)

lemma inf_clusters_ex: "\<exists>cs. get_clusters_peaks world_inf [''a''] ''1'' = Inr cs"
  by (simp add: get_clusters_peaks_def merge_dir_def load_table_def world_inf_def world_ok_def
        path_join_def startswith_def peaks_of_dir_def clusters_of_dir_def rows5_def
        clusters2_def mk_peak_vox_def mk_cluster_vox_def row_get_def py_trunc_def dict_get_def
        Let_def)

lemma inf_paths:
  "path_join ''a'' ''rendered_thresh_zstat1.png'' = ''a/rendered_thresh_zstat1.png''"
  "path_join ''a'' ''thresh_zstat1.nii.gz'' = ''a/thresh_zstat1.nii.gz''"
  "path_join ''a'' ''mask.nii.gz'' = ''a/mask.nii.gz''"
  by code_simp+

text \<open>
  C2 (the code differs). With threshold-type code 0 in the configuration text no error is
  raised: the \<^verbatim>\<open>else\<close> branch is taken and an inference is returned that carries the
  statistic threshold and the extent probability of the cluster-extent mode, but no
  clusters and no criteria.
\<close>

theorem inference_threshold_code_0:
  "inference_of world_inf (self_inf CHR ''0'') ''a'' 1 ''a/thresh_zstat1.nii.gz''
     = Inr (40,
         \<lparr>inf_stat_num = ''1'', inf_contrast_name = ''one'',
          inf_stat_threshold = Some 2.3, inf_p_corr_threshold = None,
          inf_p_uncorr_threshold = None, inf_extent_p_corr = Some 0.05,
          inf_peak_criteria = None, inf_clus_criteria = None, inf_display_mask = None,
          inf_exc_set =
            \<lparr>es_file = ''a/thresh_zstat1.nii.gz'', es_stat_num = [],
             es_visualisation = ''a/rendered_thresh_zstat1.png''\<rparr>,
          inf_clusters = None, inf_search_space = SearchSpace ''a/mask.nii.gz'',
          inf_software_id = 1\<rparr>)"
  by (simp add: inference_of_def inf_self inf_world inf_file inf_link inf_thresholds
        inf_masking inf_paths dict_get_def threshold_fields_def clusters_and_criteria_def
        stat_label_def Let_def)

lemma inf_returns:
  "\<exists>c i. inference_of world_inf (self_inf CHR ''1'') ''a'' 1 ''a/thresh_zstat1.nii.gz'' = Inr (c, i)"
  "\<exists>c i. inference_of world_inf (self_inf CHR ''2'') ''a'' 1 ''a/thresh_zstat1.nii.gz'' = Inr (c, i)"
  by (simp_all add: inference_of_def inf_self inf_world inf_file inf_link inf_thresholds
        inf_masking inf_paths dict_get_def threshold_fields_def clusters_and_criteria_def
        stat_label_def Let_def)

lemma inf_returns_3:
  "\<exists>c i. inference_of world_inf (self_inf CHR ''3'') ''a'' 1 ''a/thresh_zstat1.nii.gz'' = Inr (c, i)"
proof -
  from inf_clusters_ex obtain cs where "get_clusters_peaks world_inf [''a''] ''1'' = Inr cs" ..
  then show ?thesis
    by (simp add: inference_of_def inf_self inf_world inf_file inf_link inf_thresholds
        inf_masking inf_paths dict_get_def threshold_fields_def clusters_and_criteria_def
        stat_label_def Let_def get_num_peaks_def get_peak_dist_def get_connectivity_def)
qed

text \<open>An inference is assembled, with these fields, for each of the codes 1, 2 and 3.\<close>

theorem threshold_spec_one_hot_witness:
  "(\<exists>c i. inference_of world_inf (self_inf CHR ''1'') ''a'' 1 ''a/thresh_zstat1.nii.gz''
             = Inr (c, i)
          \<and> inf_p_uncorr_threshold i = Some 0.05 \<and> inf_p_corr_threshold i = None
          \<and> inf_stat_threshold i = None \<and> inf_extent_p_corr i = None
          \<and> inf_clusters i = None \<and> inf_peak_criteria i = None \<and> inf_clus_criteria i = None)
   \<and> (\<exists>c i. inference_of world_inf (self_inf CHR ''2'') ''a'' 1 ''a/thresh_zstat1.nii.gz''
             = Inr (c, i)
          \<and> inf_p_corr_threshold i = Some 0.05 \<and> inf_p_uncorr_threshold i = None
          \<and> inf_stat_threshold i = None \<and> inf_extent_p_corr i = None
          \<and> inf_clusters i = None \<and> inf_peak_criteria i = None \<and> inf_clus_criteria i = None)
   \<and> (\<exists>c i. inference_of world_inf (self_inf CHR ''3'') ''a'' 1 ''a/thresh_zstat1.nii.gz''
             = Inr (c, i)
          \<and> inf_stat_threshold i = Some 2.3 \<and> inf_extent_p_corr i = Some 0.05
          \<and> inf_p_corr_threshold i = None \<and> inf_p_uncorr_threshold i = None
          \<and> inf_peak_criteria i \<noteq> None \<and> inf_clus_criteria i \<noteq> None
          \<and> inf_clusters i \<noteq> None)"
proof (intro conjI)
  from inf_returns(1) obtain c i where
    r: "inference_of world_inf (self_inf CHR ''1'') ''a'' 1 ''a/thresh_zstat1.nii.gz'' = Inr (c, i)"
    by (elim exE)
  have t: "read_thresholds (self_design_txt (self_inf CHR ''1'')) = Inr (0.05, 2.3, 1)"
    by (simp add: inf_self inf_thresholds)
  from threshold_spec_one_hot[OF r t] r
  show "\<exists>c i. inference_of world_inf (self_inf CHR ''1'') ''a'' 1 ''a/thresh_zstat1.nii.gz''
             = Inr (c, i)
          \<and> inf_p_uncorr_threshold i = Some 0.05 \<and> inf_p_corr_threshold i = None
          \<and> inf_stat_threshold i = None \<and> inf_extent_p_corr i = None
          \<and> inf_clusters i = None \<and> inf_peak_criteria i = None \<and> inf_clus_criteria i = None"
    by simp
next
  from inf_returns(2) obtain c i where
    r: "inference_of world_inf (self_inf CHR ''2'') ''a'' 1 ''a/thresh_zstat1.nii.gz'' = Inr (c, i)"
    by (elim exE)
  have t: "read_thresholds (self_design_txt (self_inf CHR ''2'')) = Inr (0.05, 2.3, 2)"
    by (simp add: inf_self inf_thresholds)
  from threshold_spec_one_hot[OF r t] r
  show "\<exists>c i. inference_of world_inf (self_inf CHR ''2'') ''a'' 1 ''a/thresh_zstat1.nii.gz''
             = Inr (c, i)
          \<and> inf_p_corr_threshold i = Some 0.05 \<and> inf_p_uncorr_threshold i = None
          \<and> inf_stat_threshold i = None \<and> inf_extent_p_corr i = None
          \<and> inf_clusters i = None \<and> inf_peak_criteria i = None \<and> inf_clus_criteria i = None"
    by simp
next
  from inf_returns_3 obtain c i where
    r: "inference_of world_inf (self_inf CHR ''3'') ''a'' 1 ''a/thresh_zstat1.nii.gz'' = Inr (c, i)"
    by (elim exE)
  have t: "read_thresholds (self_design_txt (self_inf CHR ''3'')) = Inr (0.05, 2.3, 3)"
    by (simp add: inf_self inf_thresholds)
  from threshold_spec_one_hot[OF r t] r
  show "\<exists>c i. inference_of world_inf (self_inf CHR ''3'') ''a'' 1 ''a/thresh_zstat1.nii.gz''
             = Inr (c, i)
          \<and> inf_stat_threshold i = Some 2.3 \<and> inf_extent_p_corr i = Some 0.05
          \<and> inf_p_corr_threshold i = None \<and> inf_p_uncorr_threshold i = None
          \<and> inf_peak_criteria i \<noteq> None \<and> inf_clus_criteria i \<noteq> None
          \<and> inf_clusters i \<noteq> None"
    by simp
qed

lemma link_contrasts_unmatched:
  "list_all (\<lambda>c. derived_con_num c \<noteq> Inr stat_num) cs
     \<Longrightarrow> link_contrasts cs stat_num con_id = Inr r \<Longrightarrow> r = con_id"
  by (induction cs arbitrary: con_id) (auto simp: bind_err_eq_Inr)

lemma link_values_unmatched:
  "list_all (\<lambda>c. derived_con_num c \<noteq> Inr stat_num) (concat css)
     \<Longrightarrow> link_values css stat_num con_id = Inr r \<Longrightarrow> r = con_id"
  by (induction css arbitrary: con_id)
     (auto simp: bind_err_eq_Inr dest: link_contrasts_unmatched)

lemma link_contrasts_total:
  "list_all (\<lambda>c. \<not> isl (derived_con_num c)) cs
     \<Longrightarrow> \<exists>r. link_contrasts cs stat_num con_id = Inr r"
proof (induction cs arbitrary: con_id)
  case Nil
  then show ?case by simp
next
  case (Cons c cs)
  then obtain num where "derived_con_num c = Inr num"
    by (cases "derived_con_num c") auto
  with Cons show ?case by simp
qed

lemma link_values_total:
  "list_all (\<lambda>c. \<not> isl (derived_con_num c)) (concat css)
     \<Longrightarrow> \<exists>r. link_values css stat_num con_id = Inr r"
proof (induction css arbitrary: con_id)
  case Nil
  then show ?case by simp
next
  case (Cons cs css)
  then have a: "list_all (\<lambda>c. \<not> isl (derived_con_num c)) cs"
    and b: "list_all (\<lambda>c. \<not> isl (derived_con_num c)) (concat css)" by auto
  from link_contrasts_total[OF a] obtain r where "link_contrasts cs stat_num con_id = Inr r"
    by blast
  with Cons.IH[OF b] show ?case by simp
qed

lemma find_con_id_unmatched:
  assumes "list_all (\<lambda>c. derived_con_num c \<noteq> Inr stat_num) (concat (map snd cons))"
  shows "isl (find_con_id cons stat_num)"
    and "list_all (\<lambda>c. \<not> isl (derived_con_num c)) (concat (map snd cons))
           \<Longrightarrow> find_con_id cons stat_num = Inl AssertionError"
proof -
  show "isl (find_con_id cons stat_num)"
  proof (cases "link_values (map snd cons) stat_num None")
    case (Inl e)
    then show ?thesis by (simp add: find_con_id_def)
  next
    case (Inr r)
    with link_values_unmatched[OF assms Inr] show ?thesis by (simp add: find_con_id_def)
  qed
next
  assume "list_all (\<lambda>c. \<not> isl (derived_con_num c)) (concat (map snd cons))"
  from link_values_total[OF this] obtain r where
    r: "link_values (map snd cons) stat_num None = Inr r" by blast
  with link_values_unmatched[OF assms r] show "find_con_id cons stat_num = Inl AssertionError"
    by (simp add: find_con_id_def)
qed

lemma isl_bind_err: "isl r \<Longrightarrow> isl (bind_err r f)"
  by (cases r) simp_all

lemma inf_exc_loop_fails:
  "filename \<in> set files \<Longrightarrow> isl (inference_of w self d n filename)
     \<Longrightarrow> isl (inf_exc_loop w self d n files infs)"
proof (induction files arbitrary: infs)
  case Nil
  then show ?case by simp
next
  case (Cons f files)
  show ?case
  proof (cases "inference_of w self d n f")
    case (Inl e)
    then show ?thesis by simp
  next
    case (Inr p)
    with Cons show ?thesis by (cases p) auto
  qed
qed

lemma inf_dirs_loop_fails:
  "d \<in> set dirs \<Longrightarrow> (\<And>infs. isl (inf_exc_loop w self d (length (w_glob w d)) (w_glob w d) infs))
     \<Longrightarrow> isl (inf_dirs_loop w self dirs infs)"
proof (induction dirs arbitrary: infs)
  case Nil
  then show ?case by simp
next
  case (Cons d' dirs)
  show ?case
  proof (cases "inf_exc_loop w self d' (length (w_glob w d')) (w_glob w d') infs")
    case (Inl e)
    then show ?thesis by (simp add: Let_def)
  next
    case (Inr infs')
    with Cons.prems(2)[of infs] have "d' \<noteq> d" by auto
    with Cons.prems(1) have "d \<in> set dirs" by simp
    from Cons.IH[OF this Cons.prems(2)] Inr show ?thesis by (simp add: Let_def)
  qed
qed

text \<open>
  C6. An excursion set whose file name embeds the number \<open>stat_num\<close>, when no known
  contrast's number (derived from its contrast-map file name) equals \<open>stat_num\<close>, gets no
  inference: the body of the loop fails for it, with AssertionError when the number of every
  contrast can be derived, and \<^verbatim>\<open>_find_inferences\<close> as a whole fails if such an excursion
  set is found in one of the analysis directories.
\<close>

theorem unmatched_excursion_set_fails:
  assumes "exc_set_stat filename = Inr (stat_type, stat_num)"
    and "list_all (\<lambda>c. derived_con_num c \<noteq> Inr stat_num) (concat (map snd (self_contrasts self)))"
  shows "isl (inference_of w self d n filename)
       \<and> (list_all (\<lambda>c. \<not> isl (derived_con_num c)) (concat (map snd (self_contrasts self)))
            \<longrightarrow> inference_of w self d n filename = Inl AssertionError)
       \<and> (d \<in> set (self_analysis_dirs self) \<and> filename \<in> set (w_glob w d)
            \<longrightarrow> isl (find_inferences w self))"
proof -
  have fails: "isl (inference_of w self d' n' filename)" for d' n'
    using assms(1) find_con_id_unmatched(1)[OF assms(2)]
    by (cases "find_con_id (self_contrasts self) stat_num")
       (simp_all add: inference_of_def Let_def)
  have assertion: "inference_of w self d n filename = Inl AssertionError"
    if "list_all (\<lambda>c. \<not> isl (derived_con_num c)) (concat (map snd (self_contrasts self)))"
    using assms(1) find_con_id_unmatched(2)[OF assms(2) that]
    by (simp add: inference_of_def Let_def)
  have whole: "isl (find_inferences w self)"
    if "d \<in> set (self_analysis_dirs self) \<and> filename \<in> set (w_glob w d)"
  proof -
    from that have a: "d \<in> set (self_analysis_dirs self)" and b: "filename \<in> set (w_glob w d)"
      by simp_all
    have "isl (inf_exc_loop w self d (length (w_glob w d)) (w_glob w d) infs)" for infs
      using inf_exc_loop_fails[OF b fails] .
    from inf_dirs_loop_fails[OF a this] show ?thesis by (simp add: find_inferences_def)
  qed
  from fails assertion whole show ?thesis by blast
qed

lemma unmatched_file: "exc_set_stat ''a/thresh_zstat2.nii.gz'' = Inr (''T'', ''2'')"
  by code_simp

lemma con_one_num: "derived_con_num con_one = Inr ''1''"
  by code_simp

theorem unmatched_excursion_set_fails_witness:
  "inference_of world_unmatched (self_inf CHR ''3'') ''a'' 1 ''a/thresh_zstat2.nii.gz''
     = Inl AssertionError
   \<and> isl (find_inferences world_unmatched (self_inf CHR ''3''))"
proof -
  have cons: "self_contrasts (self_inf CHR ''3'') = [((7, []), [con_one])]"
    by (simp add: self_inf_def)
  have h2: "list_all (\<lambda>c. derived_con_num c \<noteq> Inr ''2'')
              (concat (map snd (self_contrasts (self_inf CHR ''3''))))"
    by (simp add: cons con_one_num)
  have h3: "list_all (\<lambda>c. \<not> isl (derived_con_num c))
              (concat (map snd (self_contrasts (self_inf CHR ''3''))))"
    by (simp add: cons con_one_num)
  have h4: "''a'' \<in> set (self_analysis_dirs (self_inf CHR ''3''))
            \<and> ''a/thresh_zstat2.nii.gz'' \<in> set (w_glob world_unmatched ''a'')"
    by (simp add: self_inf_def world_unmatched_def)
  note inst = unmatched_excursion_set_fails[OF unmatched_file h2,
      of world_unmatched "''a''" 1]
  have A: "inference_of world_unmatched (self_inf CHR ''3'') ''a'' 1 ''a/thresh_zstat2.nii.gz''
             = Inl AssertionError"
    by (rule inst[THEN conjunct2, THEN conjunct1, THEN mp, OF h3])
  have B: "isl (find_inferences world_unmatched (self_inf CHR ''3''))"
    by (rule inst[THEN conjunct2, THEN conjunct2, THEN mp, OF h4])
  show ?thesis by (rule conjI[OF A B])
qed

end
